theory Spec2Isabelle
  imports Complex_Main "HOL-Library.Sublist" "HOL-Library.AList"
begin

section \<open>Python helpers\<close>

text \<open>
  A Python \<open>str\<close> is modelled as a \<open>string\<close> whose characters are the code points
  below 256; \<open>len\<close> is \<open>length\<close>. Python integers are \<open>int\<close>. A timestamp
  (\<open>datetime.utcnow()\<close>) is a natural number of clock ticks; where the source serialises
  one with \<open>isoformat()\<close>, the model keeps the timestamp.
\<close>

definition py_or_int :: "int option \<Rightarrow> int \<Rightarrow> int" where
  \<comment> \<open>\<open>x or d\<close> for an \<open>Optional[int]\<close>: \<open>None\<close> and \<open>0\<close> are falsy.\<close>
  "py_or_int x d = (case x of None \<Rightarrow> d | Some n \<Rightarrow> if n = 0 then d else n)"

definition py_isspace :: "char \<Rightarrow> bool" where
  \<comment> \<open>The code points below 256 that \<open>str.isspace\<close> accepts.\<close>
  "py_isspace c =
     (let n = (of_char c :: nat)
      in (9 \<le> n \<and> n \<le> 13) \<or> (28 \<le> n \<and> n \<le> 32) \<or> n = 133 \<or> n = 160)"

definition py_strip :: "string \<Rightarrow> string" where
  \<comment> \<open>\<open>text.strip()\<close>: leading and trailing whitespace removed.\<close>
  "py_strip text = rev (dropWhile py_isspace (rev (dropWhile py_isspace text)))"

definition py_replace_char :: "char \<Rightarrow> string \<Rightarrow> string \<Rightarrow> string" where
  \<comment> \<open>\<open>text.replace(old, new)\<close> for a pattern \<open>old\<close> of one character.\<close>
  "py_replace_char old new text = concat (map (\<lambda>c. if c = old then new else [c]) text)"

text \<open>
  The environment of one call: the clock reading it takes, whether the queries of its
  database session succeed (\<open>read_ok\<close>: \<open>get\<close>, \<open>exec\<close>, and the \<open>refresh\<close> after a
  commit) and whether its commit succeeds (\<open>commit_ok\<close>). A failing query or commit raises
  an exception in the source; a failed commit leaves the database as it was.
\<close>

record env =
  now :: nat
  read_ok :: bool
  commit_ok :: bool

section \<open>Persisted state\<close>

record conversation =
  conv_user_id :: string
  conv_created_at :: nat
  conv_updated_at :: nat

record message =
  msg_id :: int
  msg_conversation_id :: int
  msg_user_id :: string
  msg_role :: string
  msg_content :: string
  msg_created_at :: nat

text \<open>
  Modelled from the spec: the Task row (\<open>app/models/task.py\<close> is not among the sources;
  the fields are those the tool handlers read and write, and the spec's persisted layout
  Task(id, user_id, title, description, completed, created_at, updated_at)). The primary
  key is the key of the table.
\<close>

record task =
  task_user_id :: string
  task_title :: string
  task_description :: "string option"
  task_completed :: bool
  task_created_at :: nat
  task_updated_at :: nat

text \<open>
  The database: conversations by primary key, the message rows and the task rows in
  insertion order, and the next value of each auto-incremented key.
\<close>

record database =
  conversations :: "int \<rightharpoonup> conversation"
  messages :: "message list"
  tasks :: "(int \<times> task) list"
  next_conversation_id :: int
  next_message_id :: int
  next_task_id :: int

section \<open>Conversation manager\<close>

text \<open>
  A message as handed to the completion engine: a dictionary with the keys \<open>role\<close> and
  \<open>content\<close>, and for the assistant entry the chat endpoint builds also \<open>tool_calls\<close>
  (\<open>None\<close> when the key is absent).
\<close>

record tool_call =
  tc_id :: string
  tc_name :: string
  tc_arguments :: string

record chat_message =
  role :: string
  content :: string
  tool_calls :: "tool_call list option"

text \<open>
  \<open>ConversationManager.__init__\<close>: the two limits and the tokenizer. The tokenizer is the
  external encoder (text to token ids) when the tokenizer package can be imported, and
  \<open>None\<close> otherwise.
\<close>

record conversation_manager =
  max_history_messages :: int
  max_context_tokens :: int
  tokenizer :: "(string \<Rightarrow> nat list) option"

definition ConversationManager :: "(string \<Rightarrow> nat list) option \<Rightarrow> conversation_manager" where
  "ConversationManager tk =
     \<lparr>max_history_messages = 20, max_context_tokens = 4000, tokenizer = tk\<rparr>"

definition count_tokens :: "conversation_manager \<Rightarrow> string \<Rightarrow> int" where
  "count_tokens mgr text =
     (case tokenizer mgr of
        Some encode \<Rightarrow> int (length (encode text))
      | None \<Rightarrow> int (length text) div 4)"

text \<open>
  The loop of \<open>truncate_history_by_tokens\<close> over \<open>reversed(messages)\<close>: the first list
  is what is left of the reversed input, \<open>truncated\<close> and \<open>current_tokens\<close> are the loop's
  variables; \<open>break\<close> returns \<open>truncated\<close> as it is.
\<close>

fun truncate_loop ::
  "conversation_manager \<Rightarrow> int \<Rightarrow> chat_message list \<Rightarrow> chat_message list \<Rightarrow> int
     \<Rightarrow> chat_message list" where
  "truncate_loop mgr max_tokens [] truncated current_tokens = truncated"
| "truncate_loop mgr max_tokens (msg # older) truncated current_tokens =
     (let msg_tokens = count_tokens mgr (content msg) in
      if current_tokens + msg_tokens \<le> max_tokens
      then truncate_loop mgr max_tokens older (msg # truncated) (current_tokens + msg_tokens)
      else truncated)"

definition truncate_history_by_tokens ::
  "conversation_manager \<Rightarrow> chat_message list \<Rightarrow> int option \<Rightarrow> chat_message list" where
  "truncate_history_by_tokens mgr messages_arg max_tokens_arg =
     (let max_tokens = py_or_int max_tokens_arg (max_context_tokens mgr);
          total_tokens = sum_list (map (\<lambda>msg. count_tokens mgr (content msg)) messages_arg)
      in if total_tokens \<le> max_tokens then messages_arg
         else truncate_loop mgr max_tokens (rev messages_arg) [] 0)"

text \<open>The summed token estimate of a message list.\<close>

definition history_tokens :: "conversation_manager \<Rightarrow> chat_message list \<Rightarrow> int" where
  "history_tokens mgr ms = sum_list (map (\<lambda>msg. count_tokens mgr (content msg)) ms)"

text \<open>
  The exceptions of the conversation manager. The first four are the \<open>ValueError\<close>s the
  source raises (the constructor stands for the message text); \<open>StorageFailure\<close> is an
  exception of the database session, which is not a \<open>ValueError\<close>.
\<close>

datatype cm_error =
  ConversationNotFound int
| UnauthorizedAccess int
| InvalidRole string
| InvalidContentLength
| StorageFailure

fun is_ValueError :: "cm_error \<Rightarrow> bool" where
  "is_ValueError StorageFailure = False"
| "is_ValueError _ = True"

definition create_conversation ::
  "env \<Rightarrow> database \<Rightarrow> string \<Rightarrow> (cm_error + int \<times> conversation) \<times> database" where
  "create_conversation e db user_id =
     (if \<not> commit_ok e then (Inl StorageFailure, db)
      else
        let cid = next_conversation_id db;
            conv = \<lparr>conv_user_id = user_id, conv_created_at = now e, conv_updated_at = now e\<rparr>;
            db' = db\<lparr>conversations := (conversations db)(cid \<mapsto> conv),
                     next_conversation_id := cid + 1\<rparr>
        in if \<not> read_ok e then (Inl StorageFailure, db')
           else (Inr (cid, conv), db'))"

definition get_conversation ::
  "env \<Rightarrow> database \<Rightarrow> int \<Rightarrow> string \<Rightarrow> cm_error + conversation" where
  "get_conversation e db conversation_id user_id =
     (if \<not> read_ok e then Inl StorageFailure
      else case conversations db conversation_id of
        None \<Rightarrow> Inl (ConversationNotFound conversation_id)
      | Some conv \<Rightarrow>
          if conv_user_id conv \<noteq> user_id then Inl (UnauthorizedAccess conversation_id)
          else Inr conv)"

text \<open>
  \<open>store_message\<close>: the four checks in the source's order, then the new row and the
  conversation's new \<open>updated_at\<close> in one commit. The result pairs what the call returns
  or raises with the database it leaves.
\<close>

definition store_message ::
  "env \<Rightarrow> database \<Rightarrow> int \<Rightarrow> string \<Rightarrow> string \<Rightarrow> string
     \<Rightarrow> (cm_error + message) \<times> database" where
  "store_message e db conversation_id user_id role_arg content_arg =
     (if \<not> read_ok e then (Inl StorageFailure, db)
      else case conversations db conversation_id of
        None \<Rightarrow> (Inl (ConversationNotFound conversation_id), db)
      | Some conv \<Rightarrow>
          if conv_user_id conv \<noteq> user_id then (Inl (UnauthorizedAccess conversation_id), db)
          else if role_arg \<notin> set [''user'', ''assistant''] then (Inl (InvalidRole role_arg), db)
          else if content_arg = [] \<or> length content_arg > 10000
          then (Inl InvalidContentLength, db)
          else if \<not> commit_ok e then (Inl StorageFailure, db)
          else
            let m = \<lparr>msg_id = next_message_id db, msg_conversation_id = conversation_id,
                     msg_user_id = user_id, msg_role = role_arg, msg_content = content_arg,
                     msg_created_at = now e\<rparr>
            in (Inr m,
                db\<lparr>messages := messages db @ [m],
                   conversations :=
                     (conversations db)(conversation_id \<mapsto> conv\<lparr>conv_updated_at := now e\<rparr>),
                   next_message_id := next_message_id db + 1\<rparr>))"

text \<open>
  The query of \<open>get_conversation_history\<close>: the rows of the conversation, ordered by
  \<open>created_at\<close> descending, at most \<open>limit\<close> of them. Rows with equal \<open>created_at\<close> are
  taken latest insertion first (SQL leaves their order open). A negative \<open>LIMIT\<close> is an
  error of the production database.
\<close>

definition conversation_rows :: "database \<Rightarrow> int \<Rightarrow> message list" where
  "conversation_rows db conversation_id =
     filter (\<lambda>m. msg_conversation_id m = conversation_id) (messages db)"

definition recent_messages :: "database \<Rightarrow> int \<Rightarrow> int \<Rightarrow> message list" where
  "recent_messages db conversation_id limit =
     take (nat limit) (rev (sort_key msg_created_at (conversation_rows db conversation_id)))"

definition format_message :: "message \<Rightarrow> chat_message" where
  "format_message msg = \<lparr>role = msg_role msg, content = msg_content msg, tool_calls = None\<rparr>"

definition get_conversation_history ::
  "conversation_manager \<Rightarrow> env \<Rightarrow> database \<Rightarrow> int \<Rightarrow> string \<Rightarrow> int option
     \<Rightarrow> cm_error + chat_message list" where
  "get_conversation_history mgr e db conversation_id user_id limit_arg =
     (if \<not> read_ok e then Inl StorageFailure
      else case conversations db conversation_id of
        None \<Rightarrow> Inl (ConversationNotFound conversation_id)
      | Some conv \<Rightarrow>
          if conv_user_id conv \<noteq> user_id then Inl (UnauthorizedAccess conversation_id)
          else
            let limit = py_or_int limit_arg (max_history_messages mgr)
            in if limit < 0 then Inl StorageFailure
               else
                 let msgs = rev (recent_messages db conversation_id limit);
                     formatted_messages = map format_message msgs
                 in Inr (truncate_history_by_tokens mgr formatted_messages None))"

section \<open>Input sanitization\<close>

text \<open>
  \<open>sanitize_input\<close> of the error-handling middleware, which \<open>add_task\<close> imports: null
  bytes removed, then the five replacements in the source's order.
\<close>

definition sanitize_input :: "string \<Rightarrow> string" where
  "sanitize_input text0 =
     (let text1 = py_replace_char (CHR 0x00) [] text0;
          text2 = py_replace_char (CHR ''&'') ''&amp;'' text1;
          text3 = py_replace_char (CHR ''<'') ''&lt;'' text2;
          text4 = py_replace_char (CHR ''>'') ''&gt;'' text3;
          text5 = py_replace_char (CHR 0x22) ''&quot;'' text4;
          text6 = py_replace_char (CHR 0x27) ''&#x27;'' text5
      in text6)"

text \<open>
  \<open>sanitize_input\<close> of the \<open>update_task\<close> module, a function of its own: null bytes
  removed and whitespace stripped, nothing else.
\<close>

definition update_task_sanitize_input :: "string \<Rightarrow> string" where
  "update_task_sanitize_input text0 =
     (if text0 = [] then text0
      else py_strip (py_replace_char (CHR 0x00) [] text0))"

section \<open>Task tools\<close>

text \<open>
  The dictionaries the tool handlers return: a failure with its \<open>error\<close> and \<open>message\<close>,
  a task, the id of a deleted task with the confirmation message, or a page of tasks with
  \<open>total\<close> and \<open>has_more\<close>.
\<close>

record task_dict =
  td_id :: int
  td_user_id :: string
  td_title :: string
  td_description :: "string option"
  td_completed :: bool
  td_created_at :: nat
  td_updated_at :: nat

datatype tool_result =
  Failure string "string option"
| TaskSuccess task_dict
| DeleteSuccess int string
| ListSuccess "task_dict list" int bool

definition task_to_dict :: "int \<Rightarrow> task \<Rightarrow> task_dict" where
  "task_to_dict i t =
     \<lparr>td_id = i, td_user_id = task_user_id t, td_title = task_title t,
      td_description = task_description t, td_completed = task_completed t,
      td_created_at = task_created_at t, td_updated_at = task_updated_at t\<rparr>"

text \<open>
  \<open>select(Task).where(Task.id == task_id, Task.user_id == user_id).first()\<close>: the row
  under the primary key, if it belongs to the user.
\<close>

definition find_task :: "database \<Rightarrow> int \<Rightarrow> string \<Rightarrow> task option" where
  "find_task db task_id user_id =
     (case map_of (tasks db) task_id of
        None \<Rightarrow> None
      | Some t \<Rightarrow> if task_user_id t = user_id then Some t else None)"

definition validate_task_id :: "int \<Rightarrow> bool \<times> string option" where
  \<comment> \<open>The argument is an \<open>int\<close>, so the \<open>isinstance\<close> check passes.\<close>
  "validate_task_id task_id =
     (if task_id < 1 then (False, Some ''task_id must be a positive integer'')
      else (True, None))"

definition not_found :: tool_result where
  "not_found = Failure ''NotFoundError'' (Some ''Task not found or does not belong to user'')"

definition complete_task_handler ::
  "env \<Rightarrow> database \<Rightarrow> string \<Rightarrow> int \<Rightarrow> tool_result \<times> database" where
  "complete_task_handler e db user_id task_id =
     (case validate_task_id task_id of
        (False, error_message) \<Rightarrow> (Failure ''ValidationError'' error_message, db)
      | (True, _) \<Rightarrow>
          if \<not> read_ok e
          then (Failure ''DatabaseError'' (Some ''Failed to complete task. Please try again.''), db)
          else case find_task db task_id user_id of
            None \<Rightarrow> (not_found, db)
          | Some db_task \<Rightarrow>
              let db_task' = db_task\<lparr>task_completed := True, task_updated_at := now e\<rparr>
              in if \<not> commit_ok e
                 then (Failure ''DatabaseError''
                         (Some ''Failed to complete task. Please try again.''), db)
                 else (TaskSuccess (task_to_dict task_id db_task'),
                       db\<lparr>tasks := AList.update task_id db_task' (tasks db)\<rparr>))"

definition delete_task_handler ::
  "env \<Rightarrow> database \<Rightarrow> string \<Rightarrow> int \<Rightarrow> tool_result \<times> database" where
  "delete_task_handler e db user_id task_id =
     (case validate_task_id task_id of
        (False, error_message) \<Rightarrow> (Failure ''ValidationError'' error_message, db)
      | (True, _) \<Rightarrow>
          if \<not> read_ok e
          then (Failure ''DatabaseError'' (Some ''Failed to delete task. Please try again.''), db)
          else case find_task db task_id user_id of
            None \<Rightarrow> (not_found, db)
          | Some db_task \<Rightarrow>
              if \<not> commit_ok e
              then (Failure ''DatabaseError''
                      (Some ''Failed to delete task. Please try again.''), db)
              else (DeleteSuccess task_id ''Task deleted successfully'',
                    db\<lparr>tasks := AList.delete task_id (tasks db)\<rparr>))"

definition validate_update_params ::
  "int \<Rightarrow> string option \<Rightarrow> string option \<Rightarrow> bool option \<Rightarrow> bool \<times> string option" where
  "validate_update_params task_id title description completed =
     (if task_id < 1 then (False, Some ''task_id must be a positive integer'')
      else if title = None \<and> description = None \<and> completed = None
      then (False, Some ''At least one of title, description, or completed must be provided'')
      else case
        (case title of
           None \<Rightarrow> None
         | Some t \<Rightarrow>
             if t = [] \<or> py_strip t = []
             then Some ''Title must not be empty or whitespace-only''
             else if length t > 200 then Some ''Title must be between 1 and 200 characters''
             else if CHR 0x00 \<in> set t then Some ''Title contains invalid characters''
             else None)
      of Some msg \<Rightarrow> (False, Some msg)
       | None \<Rightarrow>
          (case
            (case description of
               None \<Rightarrow> None
             | Some d \<Rightarrow>
                 if length d > 1000 then Some ''Description must be 1000 characters or less''
                 else if CHR 0x00 \<in> set d then Some ''Description contains invalid characters''
                 else None)
           of Some msg \<Rightarrow> (False, Some msg)
            | None \<Rightarrow> (True, None)))"

definition update_task_handler ::
  "env \<Rightarrow> database \<Rightarrow> string \<Rightarrow> int \<Rightarrow> string option \<Rightarrow> string option \<Rightarrow> bool option
     \<Rightarrow> tool_result \<times> database" where
  "update_task_handler e db user_id task_id title_arg description_arg completed =
     (case validate_update_params task_id title_arg description_arg completed of
        (False, error_message) \<Rightarrow> (Failure ''ValidationError'' error_message, db)
      | (True, _) \<Rightarrow>
          let title = map_option update_task_sanitize_input title_arg;
              description = map_option update_task_sanitize_input description_arg
          in if \<not> read_ok e
             then (Failure ''DatabaseError''
                     (Some ''Failed to update task. Please try again.''), db)
             else case find_task db task_id user_id of
               None \<Rightarrow> (not_found, db)
             | Some db_task \<Rightarrow>
                 let t1 = (case title of None \<Rightarrow> db_task
                           | Some v \<Rightarrow> db_task\<lparr>task_title := v\<rparr>);
                     t2 = (case description of None \<Rightarrow> t1
                           | Some v \<Rightarrow> t1\<lparr>task_description := Some v\<rparr>);
                     t3 = (case completed of None \<Rightarrow> t2
                           | Some v \<Rightarrow> t2\<lparr>task_completed := v\<rparr>);
                     t4 = t3\<lparr>task_updated_at := now e\<rparr>
                 in if \<not> commit_ok e
                    then (Failure ''DatabaseError''
                            (Some ''Failed to update task. Please try again.''), db)
                    else (TaskSuccess (task_to_dict task_id t4),
                          db\<lparr>tasks := AList.update task_id t4 (tasks db)\<rparr>))"

text \<open>
  \<open>add_task_handler\<close>. The description is checked and sanitized first, giving the error
  message or the value to store. In the environment, \<open>commit_ok\<close> stands for the whole
  creation of the row (the \<open>TaskCreate\<close> and \<open>Task\<close> objects, whose declarations are not
  among the sources, and the commit); the \<open>refresh\<close> that follows is a query.
\<close>

definition add_task_description :: "string option \<Rightarrow> string + string option" where
  "add_task_description description =
     (case description of
        None \<Rightarrow> Inr None
      | Some d0 \<Rightarrow>
          if d0 = [] then Inr None
          else
            let d = py_strip d0
            in if length d > 1000 then Inl ''Description must be 1000 characters or less''
               else if CHR 0x00 \<in> set d then Inl ''Description contains invalid characters''
               else Inr (Some (sanitize_input d)))"

definition add_task_handler ::
  "env \<Rightarrow> database \<Rightarrow> string \<Rightarrow> string \<Rightarrow> string option \<Rightarrow> tool_result \<times> database" where
  "add_task_handler e db user_id title_arg description_arg =
     (if title_arg = [] \<or> py_strip title_arg = []
      then (Failure ''ValidationError'' (Some ''Title must not be empty''), db)
      else
        let title = py_strip title_arg
        in if length title > 200
           then (Failure ''ValidationError''
                   (Some ''Title must be between 1 and 200 characters''), db)
           else if CHR 0x00 \<in> set title
           then (Failure ''ValidationError'' (Some ''Title contains invalid characters''), db)
           else case add_task_description description_arg of
             Inl msg \<Rightarrow> (Failure ''ValidationError'' (Some msg), db)
           | Inr description \<Rightarrow>
               let title' = sanitize_input title
               in if \<not> commit_ok e
                  then (Failure ''DatabaseError'' (Some ''Failed to create task''), db)
                  else
                    let db_task = \<lparr>task_user_id = user_id, task_title = title',
                                   task_description = description, task_completed = False,
                                   task_created_at = now e, task_updated_at = now e\<rparr>;
                        db' = db\<lparr>tasks := tasks db @ [(next_task_id db, db_task)],
                                 next_task_id := next_task_id db + 1\<rparr>
                    in if \<not> read_ok e
                       then (Failure ''DatabaseError'' (Some ''Failed to create task''), db')
                       else (TaskSuccess (task_to_dict (next_task_id db) db_task), db'))"

definition validate_list_params :: "string \<Rightarrow> int \<Rightarrow> int \<Rightarrow> bool \<times> string option" where
  "validate_list_params filter_value limit offset =
     (if filter_value \<notin> set [''all'', ''pending'', ''completed'']
      then (False, Some ''Filter must be one of: all, pending, completed'')
      else if limit < 1 \<or> limit > 200
      then (False, Some ''Limit must be an integer between 1 and 200'')
      else if offset < 0 then (False, Some ''Offset must be a non-negative integer'')
      else (True, None))"

text \<open>
  \<open>list_tasks_handler\<close> reads only. Rows with equal \<open>created_at\<close> are taken latest
  insertion first (SQL leaves their order open).
\<close>

definition list_tasks_handler ::
  "env \<Rightarrow> database \<Rightarrow> string \<Rightarrow> string \<Rightarrow> int \<Rightarrow> int \<Rightarrow> tool_result" where
  "list_tasks_handler e db user_id filter_arg limit offset =
     (case validate_list_params filter_arg limit offset of
        (False, error_message) \<Rightarrow> Failure ''ValidationError'' error_message
      | (True, _) \<Rightarrow>
          if \<not> read_ok e
          then Failure ''DatabaseError'' (Some ''Failed to retrieve tasks. Please try again.'')
          else
            let rows = filter (\<lambda>(i, t). task_user_id t = user_id \<and>
                                 (if filter_arg = ''pending'' then \<not> task_completed t
                                  else if filter_arg = ''completed'' then task_completed t
                                  else True)) (tasks db);
                total = int (length rows);
                ordered = rev (sort_key (\<lambda>(i, t). task_created_at t) rows);
                db_tasks = take (nat limit) (drop (nat offset) ordered);
                has_more = (offset + int (length db_tasks) < total)
            in ListSuccess (map (\<lambda>(i, t). task_to_dict i t) db_tasks) total has_more)"

section \<open>Agent orchestrator\<close>

text \<open>
  The orchestrator's state; \<open>system_prompt\<close> is the text \<open>get_system_prompt()\<close> returns.
\<close>

record orchestrator =
  model :: string
  temperature :: rat
  system_prompt :: string

definition format_messages ::
  "orchestrator \<Rightarrow> chat_message list \<Rightarrow> string \<Rightarrow> chat_message list" where
  "format_messages orch conversation_history current_message =
     \<lparr>role = ''system'', content = system_prompt orch, tool_calls = None\<rparr>
       # conversation_history
       @ [\<lparr>role = ''user'', content = current_message, tool_calls = None\<rparr>]"

text \<open>
  The completion engine is external: a function from the request to the list of choices,
  or to the exception it raises. An exception is given by its most specific class among
  those the orchestrator tells apart, with \<open>str(e)\<close>; for an \<open>APIError\<close> that is none of
  the three classes above it, also its \<open>status_code\<close> attribute if it has one. A tool
  schema is represented by the tool's name.
\<close>

record completion_request =
  req_model :: string
  req_messages :: "chat_message list"
  req_temperature :: rat
  req_tools :: "string list option"
  req_tool_choice :: "string option"

record choice =
  ch_finish_reason :: string
  ch_content :: "string option"
  ch_tool_calls :: "tool_call list option"

datatype engine_exception =
  RateLimitError string
| AuthenticationError string
| APIConnectionError string
| APIError "int option" string
| OpenAIError string
| OtherException string

type_synonym engine = "completion_request \<Rightarrow> engine_exception + choice list"

fun exception_text :: "engine_exception \<Rightarrow> string" where
  "exception_text (RateLimitError s) = s"
| "exception_text (AuthenticationError s) = s"
| "exception_text (APIConnectionError s) = s"
| "exception_text (APIError c s) = s"
| "exception_text (OpenAIError s) = s"
| "exception_text (OtherException s) = s"

text \<open>The class tests of the \<open>except\<close> clauses, following the library's class hierarchy.\<close>

fun is_RateLimitError :: "engine_exception \<Rightarrow> bool" where
  "is_RateLimitError (RateLimitError s) = True"
| "is_RateLimitError _ = False"

fun is_AuthenticationError :: "engine_exception \<Rightarrow> bool" where
  "is_AuthenticationError (AuthenticationError s) = True"
| "is_AuthenticationError _ = False"

fun is_APIConnectionError :: "engine_exception \<Rightarrow> bool" where
  "is_APIConnectionError (APIConnectionError s) = True"
| "is_APIConnectionError _ = False"

fun is_APIError :: "engine_exception \<Rightarrow> bool" where
  "is_APIError (OpenAIError s) = False"
| "is_APIError (OtherException s) = False"
| "is_APIError _ = True"

fun is_OpenAIError :: "engine_exception \<Rightarrow> bool" where
  "is_OpenAIError (OtherException s) = False"
| "is_OpenAIError _ = True"

fun status_code :: "engine_exception \<Rightarrow> int option" where
  "status_code (APIError c s) = c"
| "status_code _ = None"

record error_info =
  err_type :: string
  err_message :: string
  err_user_message :: string

record agent_result =
  ar_response :: "string option"
  ar_finish_reason :: string
  ar_tool_calls :: "tool_call list option"
  ar_error :: "error_info option"

definition error_result :: "string \<Rightarrow> string \<Rightarrow> string \<Rightarrow> string \<Rightarrow> agent_result" where
  "error_result response_text type_text message_text user_message =
     \<lparr>ar_response = Some response_text, ar_finish_reason = ''error'', ar_tool_calls = None,
      ar_error = Some \<lparr>err_type = type_text, err_message = message_text,
                       err_user_message = user_message\<rparr>\<rparr>"

text \<open>
  \<open>try\<close> with its \<open>except\<close> clauses: the first clause whose class test accepts the
  exception gives the result; an exception no clause accepts is raised to the caller.
\<close>

fun try_except ::
  "engine_exception + 'a \<Rightarrow> ((engine_exception \<Rightarrow> bool) \<times> (engine_exception \<Rightarrow> 'a)) list
     \<Rightarrow> engine_exception + 'a" where
  "try_except (Inr v) clauses = Inr v"
| "try_except (Inl ex) [] = Inl ex"
| "try_except (Inl ex) ((accepts, handler) # clauses) =
     (if accepts ex then Inr (handler ex) else try_except (Inl ex) clauses)"

text \<open>The arguments of \<open>self.client.chat.completions.create\<close>.\<close>

definition build_request ::
  "orchestrator \<Rightarrow> chat_message list \<Rightarrow> string list option \<Rightarrow> completion_request" where
  "build_request orch msgs tools =
     (let tools_given = (case tools of None \<Rightarrow> False | Some ts \<Rightarrow> ts \<noteq> [])
      in \<lparr>req_model = model orch, req_messages = msgs, req_temperature = temperature orch,
          req_tools = (if tools_given then tools else None),
          req_tool_choice = (if tools_given then Some ''auto'' else None)\<rparr>)"

text \<open>The body of the \<open>try\<close> block: the call, the first choice, the result dictionary.\<close>

definition process_message_body ::
  "orchestrator \<Rightarrow> engine \<Rightarrow> chat_message list \<Rightarrow> string list option
     \<Rightarrow> engine_exception + agent_result" where
  "process_message_body orch eng msgs tools =
     (case eng (build_request orch msgs tools) of
        Inl ex \<Rightarrow> Inl ex
      | Inr [] \<Rightarrow> Inl (OtherException ''list index out of range'')
      | Inr (ch # _) \<Rightarrow>
          if ch_finish_reason ch = ''tool_calls'' \<and>
             (case ch_tool_calls ch of None \<Rightarrow> False | Some tcs \<Rightarrow> tcs \<noteq> [])
          then Inr \<lparr>ar_response = Some (case ch_content ch of None \<Rightarrow> [] | Some c \<Rightarrow> c),
                    ar_finish_reason = ch_finish_reason ch,
                    ar_tool_calls = ch_tool_calls ch, ar_error = None\<rparr>
          else Inr \<lparr>ar_response = ch_content ch, ar_finish_reason = ch_finish_reason ch,
                    ar_tool_calls = None, ar_error = None\<rparr>)"

definition process_message_clauses ::
  "((engine_exception \<Rightarrow> bool) \<times> (engine_exception \<Rightarrow> agent_result)) list" where
  "process_message_clauses =
     [(is_RateLimitError, \<lambda>ex.
         error_result ''I'm experiencing high demand right now. Please try again in a moment.''
           ''RateLimitError'' ''OpenAI API rate limit exceeded''
           ''I'm experiencing high demand right now. Please try again in a moment.''),
      (is_AuthenticationError, \<lambda>ex.
         error_result
           ''I'm temporarily unavailable due to a configuration issue. Please contact support.''
           ''AuthenticationError'' ''Invalid OpenAI API key''
           ''Service configuration error. Please contact support.''),
      (is_APIConnectionError, \<lambda>ex.
         error_result
           ''I'm having trouble connecting to my AI services. Please try again in a moment.''
           ''ConnectionError'' ''Failed to connect to OpenAI API''
           ''Connection error. Please try again shortly.''),
      (is_APIError, \<lambda>ex.
         if status_code ex = Some 503
         then error_result ''I'm temporarily unavailable. Please try again shortly.''
                ''ServiceUnavailable'' ''OpenAI service temporarily unavailable''
                ''Service temporarily unavailable. Please try again in a few minutes.''
         else error_result
                ''I encountered an error processing your request. Please try again or rephrase your message.''
                ''APIError'' (''OpenAI API error: '' @ exception_text ex)
                ''An error occurred. Please try again.''),
      (is_OpenAIError, \<lambda>ex.
         error_result ''I encountered an unexpected error. Please try again.''
           ''OpenAIError'' (''OpenAI error: '' @ exception_text ex)
           ''An unexpected error occurred. Please try again.''),
      (\<lambda>ex. True, \<lambda>ex.
         error_result ''I encountered an unexpected error. Please try again.''
           ''UnexpectedError'' (''Unexpected error: '' @ exception_text ex)
           ''An unexpected error occurred. Please try again.'')]"

definition process_message ::
  "orchestrator \<Rightarrow> engine \<Rightarrow> string \<Rightarrow> string \<Rightarrow> chat_message list option
     \<Rightarrow> string list option \<Rightarrow> engine_exception + agent_result" where
  "process_message orch eng user_id message_arg conversation_history tools =
     (let history = (case conversation_history of None \<Rightarrow> [] | Some h \<Rightarrow> h);
          msgs = format_messages orch history message_arg
      in try_except (process_message_body orch eng msgs tools) process_message_clauses)"

text \<open>
  The classification of an engine failure and the apology for it, in the spec's words: rate
  limit, authentication (configuration), connectivity, service unavailable (an API error
  with status 503), generic API error, and unexpected (any other error of the library,
  typed \<open>OpenAIError\<close>, or any other exception, typed \<open>UnexpectedError\<close>). The
  orchestrator is compared with them below.
\<close>

definition classify :: "engine_exception \<Rightarrow> string" where
  "classify ex =
     (case ex of
        RateLimitError s \<Rightarrow> ''RateLimitError''
      | AuthenticationError s \<Rightarrow> ''AuthenticationError''
      | APIConnectionError s \<Rightarrow> ''ConnectionError''
      | APIError c s \<Rightarrow> if c = Some 503 then ''ServiceUnavailable'' else ''APIError''
      | OpenAIError s \<Rightarrow> ''OpenAIError''
      | OtherException s \<Rightarrow> ''UnexpectedError'')"

definition apology :: "engine_exception \<Rightarrow> string" where
  "apology ex =
     (case ex of
        RateLimitError s \<Rightarrow>
          ''I'm experiencing high demand right now. Please try again in a moment.''
      | AuthenticationError s \<Rightarrow>
          ''I'm temporarily unavailable due to a configuration issue. Please contact support.''
      | APIConnectionError s \<Rightarrow>
          ''I'm having trouble connecting to my AI services. Please try again in a moment.''
      | APIError c s \<Rightarrow>
          if c = Some 503 then ''I'm temporarily unavailable. Please try again shortly.''
          else ''I encountered an error processing your request. Please try again or rephrase your message.''
      | OpenAIError s \<Rightarrow> ''I encountered an unexpected error. Please try again.''
      | OtherException s \<Rightarrow> ''I encountered an unexpected error. Please try again.'')"

definition apologies :: "string list" where
  "apologies =
     [''I'm experiencing high demand right now. Please try again in a moment.'',
      ''I'm temporarily unavailable due to a configuration issue. Please contact support.'',
      ''I'm having trouble connecting to my AI services. Please try again in a moment.'',
      ''I'm temporarily unavailable. Please try again shortly.'',
      ''I encountered an error processing your request. Please try again or rephrase your message.'',
      ''I encountered an unexpected error. Please try again.'']"

section \<open>Chat endpoint\<close>

record chat_request =
  cr_message :: string
  cr_conversation_id :: "int option"

text \<open>An entry of \<open>tool_results\<close>: the tool's name with its result, or with \<open>str(e)\<close>.\<close>

datatype tool_outcome =
  ToolResult string tool_result
| ToolError string string

record chat_response =
  resp_conversation_id :: int
  resp_response :: string
  resp_tool_calls :: "tool_outcome list option"
  resp_created_at :: nat

text \<open>
  The \<open>HTTPException\<close>s of the endpoint with their \<open>detail\<close>; an exception the endpoint
  does not catch reaches the general handler, which answers 500.
\<close>

datatype http_exception =
  HTTP_403_FORBIDDEN string
| HTTP_400_BAD_REQUEST string
| HTTP_404_NOT_FOUND cm_error
| HTTP_500_INTERNAL_SERVER_ERROR string

text \<open>
  What a tool call of the engine amounts to once its argument string is decoded
  (\<open>json.loads\<close>), its name is matched and the arguments are bound to the handler's
  parameters, defaults filled in: a call of one of the five handlers, a name that matches
  none of them, or an exception raised on the way (with \<open>str(e)\<close>). The decoding is a
  parameter of the model; \<open>user_id\<close> is never taken from the decoded arguments.
\<close>

datatype tool_invocation =
  CallAddTask string "string option"
| CallListTasks string int int
| CallCompleteTask int
| CallDeleteTask int
| CallUpdateTask int "string option" "string option" "bool option"
| CallUnknown
| CallRaises string

fun run_tool ::
  "env \<Rightarrow> database \<Rightarrow> string \<Rightarrow> string \<Rightarrow> tool_invocation
     \<Rightarrow> tool_outcome option \<times> database" where
  "run_tool e db user_id name (CallAddTask title description) =
     (case add_task_handler e db user_id title description of
        (result, db') \<Rightarrow> (Some (ToolResult ''add_task'' result), db'))"
| "run_tool e db user_id name (CallListTasks filter_arg limit offset) =
     (Some (ToolResult ''list_tasks'' (list_tasks_handler e db user_id filter_arg limit offset)),
      db)"
| "run_tool e db user_id name (CallCompleteTask task_id) =
     (case complete_task_handler e db user_id task_id of
        (result, db') \<Rightarrow> (Some (ToolResult ''complete_task'' result), db'))"
| "run_tool e db user_id name (CallDeleteTask task_id) =
     (case delete_task_handler e db user_id task_id of
        (result, db') \<Rightarrow> (Some (ToolResult ''delete_task'' result), db'))"
| "run_tool e db user_id name (CallUpdateTask task_id title description completed) =
     (case update_task_handler e db user_id task_id title description completed of
        (result, db') \<Rightarrow> (Some (ToolResult ''update_task'' result), db'))"
| "run_tool e db user_id name CallUnknown = (None, db)"
| "run_tool e db user_id name (CallRaises text) = (Some (ToolError name text), db)"

text \<open>
  The loop over the requested tool calls; the \<open>i\<close>-th call of the turn runs in the
  environment \<open>envs i\<close>.
\<close>

fun execute_tool_calls ::
  "(nat \<Rightarrow> env) \<Rightarrow> (tool_call \<Rightarrow> tool_invocation) \<Rightarrow> string \<Rightarrow> nat \<Rightarrow> tool_call list
     \<Rightarrow> database \<Rightarrow> tool_outcome list \<times> database" where
  "execute_tool_calls envs decode user_id i [] db = ([], db)"
| "execute_tool_calls envs decode user_id i (tc # tcs) db =
     (case run_tool (envs i) db user_id (tc_name tc) (decode tc) of
        (outcome, db1) \<Rightarrow>
          (case execute_tool_calls envs decode user_id (Suc i) tcs db1 of
             (outcomes, db2) \<Rightarrow>
               ((case outcome of None \<Rightarrow> outcomes | Some r \<Rightarrow> r # outcomes), db2)))"

record turn_env =
  env_resolve :: env
  env_history :: env
  env_tool :: "nat \<Rightarrow> env"
  env_store_user :: env
  env_store_assistant :: env
  response_time :: nat

definition get_available_tools :: "string list" where
  "get_available_tools =
     [''add_task'', ''list_tasks'', ''complete_task'', ''delete_task'', ''update_task'']"

definition resolve_conversation ::
  "env \<Rightarrow> database \<Rightarrow> string \<Rightarrow> int option \<Rightarrow> (http_exception + int) \<times> database" where
  "resolve_conversation e db user_id conversation_id_arg =
     (if (case conversation_id_arg of None \<Rightarrow> False | Some c \<Rightarrow> c \<noteq> 0)
      then
        (case get_conversation e db (case conversation_id_arg of Some c \<Rightarrow> c | None \<Rightarrow> 0)
                user_id of
           Inl ex \<Rightarrow>
             (Inl (if is_ValueError ex then HTTP_404_NOT_FOUND ex
                   else HTTP_500_INTERNAL_SERVER_ERROR ''Internal server error''), db)
         | Inr conv \<Rightarrow> (Inr (case conversation_id_arg of Some c \<Rightarrow> c | None \<Rightarrow> 0), db))
      else
        (case create_conversation e db user_id of
           (Inl ex, db') \<Rightarrow> (Inl (HTTP_500_INTERNAL_SERVER_ERROR ''Internal server error''), db')
         | (Inr (cid, conv), db') \<Rightarrow> (Inr cid, db')))"

text \<open>
  Step 6 of the endpoint: the first result's text, or, when tools ran and that text is
  missing or empty, the text of a second completion over the history extended by the
  user's message, the assistant's tool calls and the serialised tool results
  (\<open>json.dumps\<close>, a parameter of the model).
\<close>

definition final_reply ::
  "orchestrator \<Rightarrow> engine \<Rightarrow> (tool_outcome list \<Rightarrow> string) \<Rightarrow> string \<Rightarrow> string
     \<Rightarrow> chat_message list \<Rightarrow> agent_result \<Rightarrow> tool_outcome list \<Rightarrow> string option" where
  "final_reply orch eng json_dumps user_id message_arg history agent_result tool_results =
     (let final_response = ar_response agent_result
      in if tool_results \<noteq> [] \<and> (final_response = None \<or> final_response = Some [])
         then
           let tool_messages = history @
                 [\<lparr>role = ''user'', content = message_arg, tool_calls = None\<rparr>,
                  \<lparr>role = ''assistant'', content = [],
                   tool_calls = Some (case ar_tool_calls agent_result of
                                        None \<Rightarrow> [] | Some tcs \<Rightarrow> tcs)\<rparr>,
                  \<lparr>role = ''tool'', content = json_dumps tool_results, tool_calls = None\<rparr>]
           in case process_message orch eng user_id [] (Some tool_messages) None of
                Inl ex \<Rightarrow> Some ''I've completed the task.''
              | Inr final_result \<Rightarrow> ar_response final_result
         else final_response)"

text \<open>
  Step 7: the user's message, then the assistant's reply, inside one \<open>try\<close>; an exception
  of either call is logged and nothing more. A reply that is \<open>None\<close> fails the same
  emptiness check of \<open>store_message\<close> as the empty string.
\<close>

definition store_turn_messages ::
  "env \<Rightarrow> env \<Rightarrow> database \<Rightarrow> int \<Rightarrow> string \<Rightarrow> string \<Rightarrow> string option \<Rightarrow> database" where
  "store_turn_messages e_user e_assistant db conversation_id user_id message_arg final_response =
     (case store_message e_user db conversation_id user_id ''user'' message_arg of
        (Inl ex, db1) \<Rightarrow> db1
      | (Inr stored, db1) \<Rightarrow>
          snd (store_message e_assistant db1 conversation_id user_id ''assistant''
                 (case final_response of None \<Rightarrow> [] | Some r \<Rightarrow> r)))"

definition chat ::
  "conversation_manager \<Rightarrow> orchestrator \<Rightarrow> engine \<Rightarrow> (tool_call \<Rightarrow> tool_invocation)
     \<Rightarrow> (tool_outcome list \<Rightarrow> string) \<Rightarrow> turn_env \<Rightarrow> database \<Rightarrow> string \<Rightarrow> string
     \<Rightarrow> chat_request \<Rightarrow> (http_exception + chat_response) \<times> database" where
  "chat mgr orch eng decode json_dumps te db user_id current_user_id request =
     (if user_id \<noteq> current_user_id then (Inl (HTTP_403_FORBIDDEN ''Unauthorized access''), db)
      else if cr_message request = [] \<or> py_strip (cr_message request) = []
      then (Inl (HTTP_400_BAD_REQUEST ''Message cannot be empty''), db)
      else if length (cr_message request) > 10000
      then (Inl (HTTP_400_BAD_REQUEST ''Message must be 10,000 characters or less''), db)
      else case resolve_conversation (env_resolve te) db user_id (cr_conversation_id request) of
        (Inl err, db0) \<Rightarrow> (Inl err, db0)
      | (Inr conversation_id, db0) \<Rightarrow>
          (case get_conversation_history mgr (env_history te) db0 conversation_id user_id None of
             Inl ex \<Rightarrow>
               (Inl (if is_ValueError ex then HTTP_404_NOT_FOUND ex
                     else HTTP_500_INTERNAL_SERVER_ERROR ''Internal server error''), db0)
           | Inr history \<Rightarrow>
               (case process_message orch eng user_id (cr_message request) (Some history)
                       (Some get_available_tools) of
                  Inl ex \<Rightarrow> (Inl (HTTP_500_INTERNAL_SERVER_ERROR ''Failed to process message''), db0)
                | Inr agent_result \<Rightarrow>
                    (case execute_tool_calls (env_tool te) decode user_id 0
                            (case ar_tool_calls agent_result of None \<Rightarrow> [] | Some tcs \<Rightarrow> tcs)
                            db0 of
                       (tool_results, db1) \<Rightarrow>
                         let final_response =
                               final_reply orch eng json_dumps user_id (cr_message request)
                                 history agent_result tool_results;
                             db2 = store_turn_messages (env_store_user te)
                                     (env_store_assistant te) db1 conversation_id user_id
                                     (cr_message request) final_response
                         in case final_response of
                              None \<Rightarrow>
                                (Inl (HTTP_500_INTERNAL_SERVER_ERROR ''Internal server error''), db2)
                            | Some reply \<Rightarrow>
                                (Inr \<lparr>resp_conversation_id = conversation_id,
                                      resp_response = reply,
                                      resp_tool_calls =
                                        (if tool_results \<noteq> [] then Some tool_results else None),
                                      resp_created_at = response_time te\<rparr>, db2)))))"





section \<open>Example states\<close>

text \<open>
  Concrete states and environments on which the theorems below are instantiated: a
  database with one conversation of user \<open>u1\<close> holding three short messages and one task
  of \<open>u1\<close>; a database whose conversation holds two messages of 10,000 characters; an
  empty database; an environment in which storage works.
\<close>

definition example_env :: env where
  "example_env = \<lparr>now = 10, read_ok = True, commit_ok = True\<rparr>"

definition example_db :: database where
  "example_db =
     \<lparr>conversations =
        [1 \<mapsto> \<lparr>conv_user_id = ''u1'', conv_created_at = 1, conv_updated_at = 4\<rparr>],
      messages =
        [\<lparr>msg_id = 1, msg_conversation_id = 1, msg_user_id = ''u1'', msg_role = ''user'',
          msg_content = ''Hi'', msg_created_at = 2\<rparr>,
         \<lparr>msg_id = 2, msg_conversation_id = 1, msg_user_id = ''u1'', msg_role = ''assistant'',
          msg_content = ''Hello!'', msg_created_at = 3\<rparr>,
         \<lparr>msg_id = 3, msg_conversation_id = 1, msg_user_id = ''u1'', msg_role = ''user'',
          msg_content = ''How are you?'', msg_created_at = 4\<rparr>],
      tasks =
        [(1, \<lparr>task_user_id = ''u1'', task_title = ''Buy milk'', task_description = None,
              task_completed = False, task_created_at = 5, task_updated_at = 5\<rparr>)],
      next_conversation_id = 2, next_message_id = 4, next_task_id = 2\<rparr>"

definition long_history_db :: database where
  "long_history_db =
     \<lparr>conversations =
        [1 \<mapsto> \<lparr>conv_user_id = ''u1'', conv_created_at = 1, conv_updated_at = 3\<rparr>],
      messages =
        [\<lparr>msg_id = 1, msg_conversation_id = 1, msg_user_id = ''u1'', msg_role = ''user'',
          msg_content = replicate 10000 (CHR ''a''), msg_created_at = 2\<rparr>,
         \<lparr>msg_id = 2, msg_conversation_id = 1, msg_user_id = ''u1'', msg_role = ''assistant'',
          msg_content = replicate 10000 (CHR ''b''), msg_created_at = 3\<rparr>],
      tasks = [], next_conversation_id = 2, next_message_id = 3, next_task_id = 1\<rparr>"

definition example_orchestrator :: orchestrator where
  "example_orchestrator =
     \<lparr>model = ''gpt-4o-mini'', temperature = 7 / 10,
      system_prompt = ''You are a helpful task management assistant''\<rparr>"

definition empty_db :: database where
  "empty_db =
     \<lparr>conversations = Map.empty, messages = [], tasks = [],
      next_conversation_id = 1, next_message_id = 1, next_task_id = 1\<rparr>"


definition example_decode :: "tool_call \<Rightarrow> tool_invocation" where
  "example_decode tc =
     (if tc_id tc = ''call_1'' then CallAddTask ''Buy milk'' None
      else if tc_id tc = ''call_2'' then CallCompleteTask 1
      else CallUnknown)"

definition example_turn_env :: turn_env where
  "example_turn_env =
     \<lparr>env_resolve = example_env, env_history = example_env\<lparr>now := 11\<rparr>,
      env_tool = (\<lambda>i. example_env\<lparr>now := 12 + i\<rparr>),
      env_store_user = example_env\<lparr>now := 20\<rparr>,
      env_store_assistant = example_env\<lparr>now := 21\<rparr>,
      response_time = 22\<rparr>"

definition silent_engine :: engine where
  "silent_engine req =
     Inr [\<lparr>ch_finish_reason = ''stop'', ch_content = Some [], ch_tool_calls = None\<rparr>]"

section \<open>Token-budget truncation\<close>

lemma count_tokens_nonneg: "0 \<le> count_tokens mgr text"
  by (cases "tokenizer mgr") (simp_all add: count_tokens_def pos_imp_zdiv_nonneg_iff)

lemma history_tokens_nonneg: "0 \<le> history_tokens mgr ms"
  by (induction ms) (simp_all add: history_tokens_def count_tokens_nonneg)

lemma history_tokens_append:
  "history_tokens mgr (xs @ ys) = history_tokens mgr xs + history_tokens mgr ys"
  by (simp add: history_tokens_def)

lemma history_tokens_Cons:
  "history_tokens mgr (m # ms) = count_tokens mgr (content m) + history_tokens mgr ms"
  by (simp add: history_tokens_def)

text \<open>
  What the loop computes, for any state it is entered in: the kept list grows at the front
  by a stretch of the reversed input, the accumulated count is the kept list's estimate, and
  the loop ends either with the input used up or at a message that would overflow.
\<close>

lemma truncate_loop_shape:
  assumes "cur = history_tokens mgr acc"
  shows "\<exists>taken left.
           rest = taken @ left \<and>
           truncate_loop mgr B rest acc cur = rev taken @ acc \<and>
           history_tokens mgr (rev taken @ acc) \<le> max B cur \<and>
           (left = [] \<or>
            B < history_tokens mgr (rev taken @ acc) + count_tokens mgr (content (hd left)))"
  using assms
proof (induction rest arbitrary: acc cur)
  case Nil
  then show ?case by simp
next
  case (Cons m rest)
  let ?t = "count_tokens mgr (content m)"
  show ?case
  proof (cases "cur + ?t \<le> B")
    case False
    have "m # rest = [] @ (m # rest)" by simp
    moreover have "truncate_loop mgr B (m # rest) acc cur = rev [] @ acc"
      using False by (simp add: Let_def)
    moreover have "history_tokens mgr (rev [] @ acc) \<le> max B cur"
      using Cons.prems by simp
    moreover have "B < history_tokens mgr (rev [] @ acc) + count_tokens mgr (content (hd (m # rest)))"
      using False Cons.prems by simp
    ultimately show ?thesis by blast
  next
    case True
    have cur': "cur + ?t = history_tokens mgr (m # acc)"
      using Cons.prems by (simp add: history_tokens_Cons)
    from Cons.IH [OF cur'] obtain taken left where
      r: "rest = taken @ left"
      and e: "truncate_loop mgr B rest (m # acc) (cur + ?t) = rev taken @ m # acc"
      and b: "history_tokens mgr (rev taken @ m # acc) \<le> max B (cur + ?t)"
      and s: "left = [] \<or>
              B < history_tokens mgr (rev taken @ m # acc) + count_tokens mgr (content (hd left))"
      by blast
    have "m # rest = (m # taken) @ left" using r by simp
    moreover have "truncate_loop mgr B (m # rest) acc cur = rev (m # taken) @ acc"
      using True e by (simp add: Let_def)
    moreover have "history_tokens mgr (rev (m # taken) @ acc) \<le> max B cur"
      using b True by simp
    moreover have "left = [] \<or>
        B < history_tokens mgr (rev (m # taken) @ acc) + count_tokens mgr (content (hd left))"
      using s by simp
    ultimately show ?thesis by blast
  qed
qed

text \<open>
  The function itself, in terms of the budget it really uses (the argument, or the manager's
  \<open>max_context_tokens\<close> when the argument is \<open>None\<close> or \<open>0\<close>).
\<close>

lemma truncate_within_budget:
  assumes "history_tokens mgr ms \<le> py_or_int arg (max_context_tokens mgr)"
  shows "truncate_history_by_tokens mgr ms arg = ms"
  using assms by (simp add: truncate_history_by_tokens_def history_tokens_def Let_def)

lemma truncate_over_budget:
  assumes "\<not> history_tokens mgr ms \<le> E" and "E = py_or_int arg (max_context_tokens mgr)"
    and "0 \<le> E"
  shows "\<exists>older m. ms = older @ m # truncate_history_by_tokens mgr ms arg \<and>
           history_tokens mgr (truncate_history_by_tokens mgr ms arg) \<le> E \<and>
           E < count_tokens mgr (content m) +
               history_tokens mgr (truncate_history_by_tokens mgr ms arg)"
proof -
  let ?r = "truncate_history_by_tokens mgr ms arg"
  have r: "?r = truncate_loop mgr E (rev ms) [] 0"
    using assms by (simp add: truncate_history_by_tokens_def history_tokens_def Let_def)
  have "(0::int) = history_tokens mgr []" by (simp add: history_tokens_def)
  from truncate_loop_shape [OF this, of "rev ms" E] obtain taken left where
    sp: "rev ms = taken @ left"
    and e: "truncate_loop mgr E (rev ms) [] 0 = rev taken @ []"
    and b: "history_tokens mgr (rev taken @ []) \<le> max E 0"
    and s: "left = [] \<or> E < history_tokens mgr (rev taken @ []) + count_tokens mgr (content (hd left))"
    by blast
  have rt: "?r = rev taken" using r e by simp
  have ms: "ms = rev left @ rev taken"
    using sp by (metis rev_append rev_rev_ident)
  have bE: "history_tokens mgr ?r \<le> E" using b rt assms(3) by simp
  have "left \<noteq> []"
  proof
    assume "left = []"
    then have "?r = ms" using ms rt by simp
    then show False using bE assms(1) by simp
  qed
  then obtain m rest where l: "left = m # rest" by (cases left) auto
  have "ms = rev rest @ m # ?r" using ms l rt by simp
  moreover have "E < count_tokens mgr (content m) + history_tokens mgr ?r"
    using s l rt by simp
  ultimately show ?thesis using bE by blast
qed

text \<open>
  C1, as stated, at the budget \<open>0\<close>: \<open>max_tokens or self.max_context_tokens\<close> replaces a
  budget of \<open>0\<close> by the manager's default of 4000, so a single message of two tokens is
  returned whole although its estimate exceeds the budget \<open>0\<close> that was asked for.
\<close>

theorem truncate_history_by_tokens_zero_budget_counterexample:
  "\<not> history_tokens (ConversationManager None)
       (truncate_history_by_tokens (ConversationManager None)
          [\<lparr>role = ''user'', content = ''abcdefgh'', tool_calls = None\<rparr>] (Some 0)) \<le> 0"
  by (simp add: truncate_history_by_tokens_def history_tokens_def count_tokens_def
        ConversationManager_def py_or_int_def)

text \<open>
  C1, as amended: for every oldest-first message list and every budget \<open>B\<close> of at least 1,
  \<open>truncate_history_by_tokens\<close> returns the list unchanged when the summed estimates are at
  most \<open>B\<close>; in every case the result is a contiguous tail of the input whose summed
  estimates are at most \<open>B\<close>; the walk from the newest message stops at the first message
  that would overflow (the result is the whole list, or the message just before the kept
  tail does not fit on top of it); the newest message is kept when its own estimate is at
  most \<open>B\<close>, and the result is empty when it is not.
\<close>

theorem truncate_history_by_tokens_suffix:
  assumes "1 \<le> B"
  shows "let r = truncate_history_by_tokens mgr ms (Some B) in
     (history_tokens mgr ms \<le> B \<longrightarrow> r = ms) \<and>
     suffix r ms \<and>
     history_tokens mgr r \<le> B \<and>
     (r = ms \<or> (\<exists>older m. ms = older @ m # r \<and>
                   B < count_tokens mgr (content m) + history_tokens mgr r)) \<and>
     (ms \<noteq> [] \<and> count_tokens mgr (content (last ms)) \<le> B \<longrightarrow> r \<noteq> [] \<and> last r = last ms) \<and>
     (ms \<noteq> [] \<and> B < count_tokens mgr (content (last ms)) \<longrightarrow> r = [])"
proof -
  let ?r = "truncate_history_by_tokens mgr ms (Some B)"
  have E: "B = py_or_int (Some B) (max_context_tokens mgr)"
    using assms by (simp add: py_or_int_def)
  have within: "history_tokens mgr ms \<le> B \<Longrightarrow> ?r = ms"
    using truncate_within_budget [of mgr ms "Some B"] E by simp
  have over: "\<exists>older m. ms = older @ m # ?r \<and> history_tokens mgr ?r \<le> B \<and>
                B < count_tokens mgr (content m) + history_tokens mgr ?r"
    if "\<not> history_tokens mgr ms \<le> B"
    using truncate_over_budget [OF that E] assms by simp
  have 1: "history_tokens mgr ms \<le> B \<longrightarrow> ?r = ms" using within by simp
  have 2: "suffix ?r ms"
  proof (cases "history_tokens mgr ms \<le> B")
    case True
    then show ?thesis using within by simp
  next
    case False
    from over [OF False] obtain older m where "ms = (older @ [m]) @ ?r" by auto
    then show ?thesis unfolding suffix_def by blast
  qed
  have 3: "history_tokens mgr ?r \<le> B"
  proof (cases "history_tokens mgr ms \<le> B")
    case True
    then show ?thesis using within by simp
  next
    case False
    from over [OF False] show ?thesis by blast
  qed
  have 4: "?r = ms \<or> (\<exists>older m. ms = older @ m # ?r \<and>
                   B < count_tokens mgr (content m) + history_tokens mgr ?r)"
  proof (cases "history_tokens mgr ms \<le> B")
    case True
    then show ?thesis using within by simp
  next
    case False
    from over [OF False] show ?thesis by blast
  qed
  have 5: "?r \<noteq> [] \<and> last ?r = last ms"
    if ne: "ms \<noteq> []" and fits: "count_tokens mgr (content (last ms)) \<le> B"
  proof (cases "?r = ms")
    case True
    then show ?thesis using ne by simp
  next
    case False
    with 4 obtain older m where ms: "ms = older @ m # ?r"
      and ov: "B < count_tokens mgr (content m) + history_tokens mgr ?r" by blast
    have "?r \<noteq> []"
    proof
      assume emp: "?r = []"
      then have "ms = older @ [m]" using ms by simp
      then have "last ms = m" by simp
      then show False using ov emp fits by (simp add: history_tokens_def)
    qed
    moreover from this have "last (older @ m # ?r) = last ?r" by simp
    then have "last ms = last ?r" using ms by simp
    ultimately show ?thesis by simp
  qed
  have 6: "?r = []" if ne: "ms \<noteq> []" and big: "B < count_tokens mgr (content (last ms))"
  proof (rule ccontr)
    assume r: "?r \<noteq> []"
    from 2 obtain zs where "ms = zs @ ?r" unfolding suffix_def by blast
    then have "last ?r = last ms" using r by (metis last_appendR)
    then obtain pre where "?r = pre @ [last ms]" using r by (metis append_butlast_last_id)
    then have "history_tokens mgr ?r = history_tokens mgr (pre @ [last ms])" by simp
    then have "history_tokens mgr ?r = history_tokens mgr pre + count_tokens mgr (content (last ms))"
      by (simp add: history_tokens_def)
    then show False using 3 big history_tokens_nonneg [of mgr pre] by linarith
  qed
  show ?thesis unfolding Let_def using 1 2 3 4 5 6 by blast
qed

theorem truncate_history_by_tokens_suffix_witness:
  "let M = ConversationManager None;
       ms = [\<lparr>role = ''user'', content = ''aaaaaaaa'', tool_calls = None\<rparr>,
             \<lparr>role = ''assistant'', content = ''bbbbbbbb'', tool_calls = None\<rparr>,
             \<lparr>role = ''user'', content = ''cccccccc'', tool_calls = None\<rparr>]
   in history_tokens M ms \<le> 100 \<and> truncate_history_by_tokens M ms (Some 100) = ms \<and>
      count_tokens M (content (last ms)) \<le> 4 \<and>
      suffix (truncate_history_by_tokens M ms (Some 4)) ms \<and>
      history_tokens M (truncate_history_by_tokens M ms (Some 4)) \<le> 4 \<and>
      last (truncate_history_by_tokens M ms (Some 4)) = last ms \<and>
      1 < count_tokens M (content (last ms)) \<and>
      truncate_history_by_tokens M ms (Some 1) = []"
proof -
  let ?M = "ConversationManager None"
  let ?ms = "[\<lparr>role = ''user'', content = ''aaaaaaaa'', tool_calls = None\<rparr>,
             \<lparr>role = ''assistant'', content = ''bbbbbbbb'', tool_calls = None\<rparr>,
             \<lparr>role = ''user'', content = ''cccccccc'', tool_calls = None\<rparr>]"
  have t: "history_tokens ?M ?ms = 6" "count_tokens ?M (content (last ?ms)) = 2"
    by (simp_all add: history_tokens_def count_tokens_def ConversationManager_def)
  have a: "truncate_history_by_tokens ?M ?ms (Some 100) = ?ms"
    using truncate_history_by_tokens_suffix [of 100 ?M ?ms] t unfolding Let_def by simp
  have b: "suffix (truncate_history_by_tokens ?M ?ms (Some 4)) ?ms \<and>
      history_tokens ?M (truncate_history_by_tokens ?M ?ms (Some 4)) \<le> 4 \<and>
      last (truncate_history_by_tokens ?M ?ms (Some 4)) = last ?ms"
    using truncate_history_by_tokens_suffix [of 4 ?M ?ms] t unfolding Let_def by simp
  have c: "truncate_history_by_tokens ?M ?ms (Some 1) = []"
    using truncate_history_by_tokens_suffix [of 1 ?M ?ms] t unfolding Let_def by simp
  show ?thesis unfolding Let_def using a b c t by simp
qed

section \<open>History retrieval\<close>

lemma recent_messages_sorted:
  assumes "sorted_wrt (<) (map msg_created_at (conversation_rows db cid))" and "0 \<le> limit"
  shows "rev (recent_messages db cid limit) =
         drop (length (conversation_rows db cid) - nat limit) (conversation_rows db cid)"
proof -
  have "sorted (map msg_created_at (conversation_rows db cid))"
    using assms(1) by (rule strict_sorted_imp_sorted)
  then have "sort_key msg_created_at (conversation_rows db cid) = conversation_rows db cid"
    by (rule sort_key_id_if_sorted)
  then show ?thesis by (simp add: recent_messages_def take_rev)
qed

text \<open>
  C5, as amended: for a conversation owned by the caller whose \<open>N\<close> stored messages have
  increasing creation times, and a limit of at least 1, \<open>get_conversation_history\<close>
  returns the token-budget truncation (budget \<open>max_context_tokens\<close>) of the most recent
  \<open>min(N, limit)\<close> messages in chronological order, each formatted as role and content;
  when the token estimates of those messages sum to at most \<open>max_context_tokens\<close>, it
  returns exactly those \<open>min(N, limit)\<close> messages.
\<close>

theorem get_conversation_history_recent:
  assumes "read_ok e"
    and "conversations db cid = Some conv" and "conv_user_id conv = uid"
    and "1 \<le> limit"
    and "sorted_wrt (<) (map msg_created_at (conversation_rows db cid))"
  shows "let rows = conversation_rows db cid;
             recent = drop (length rows - nat limit) rows;
             formatted = map format_message recent
         in length recent = min (length rows) (nat limit) \<and>
            get_conversation_history mgr e db cid uid (Some limit) =
              Inr (truncate_history_by_tokens mgr formatted None) \<and>
            (history_tokens mgr formatted \<le> max_context_tokens mgr \<longrightarrow>
               get_conversation_history mgr e db cid uid (Some limit) = Inr formatted)"
proof -
  let ?rows = "conversation_rows db cid"
  let ?recent = "drop (length ?rows - nat limit) ?rows"
  let ?fmt = "map format_message ?recent"
  have lim: "py_or_int (Some limit) (max_history_messages mgr) = limit"
    using assms(4) by (simp add: py_or_int_def)
  have rec: "rev (recent_messages db cid limit) = ?recent"
    using recent_messages_sorted [OF assms(5), of limit] assms(4) by simp
  have g: "get_conversation_history mgr e db cid uid (Some limit) =
             Inr (truncate_history_by_tokens mgr ?fmt None)"
    using assms(1-4) lim rec by (simp add: get_conversation_history_def Let_def)
  have len: "length ?recent = min (length ?rows) (nat limit)" by simp
  have w: "truncate_history_by_tokens mgr ?fmt None = ?fmt"
    if "history_tokens mgr ?fmt \<le> max_context_tokens mgr"
    using truncate_within_budget [of mgr ?fmt None] that by (simp add: py_or_int_def)
  show ?thesis unfolding Let_def using g len w by simp
qed

theorem get_conversation_history_recent_witness:
  "get_conversation_history (ConversationManager None) example_env example_db 1 ''u1'' (Some 2) =
     Inr [\<lparr>role = ''assistant'', content = ''Hello!'', tool_calls = None\<rparr>,
          \<lparr>role = ''user'', content = ''How are you?'', tool_calls = None\<rparr>]"
proof -
  let ?M = "ConversationManager None"
  have rows: "conversation_rows example_db 1 = messages example_db"
    by (simp add: conversation_rows_def example_db_def)
  have h1: "read_ok example_env" by (simp add: example_env_def)
  have h2: "conversations example_db 1 =
              Some \<lparr>conv_user_id = ''u1'', conv_created_at = 1, conv_updated_at = 4\<rparr>"
    by (simp add: example_db_def)
  have h3: "conv_user_id \<lparr>conv_user_id = ''u1'', conv_created_at = 1, conv_updated_at = 4\<rparr> = ''u1''"
    by simp
  have h4: "(1::int) \<le> 2" by simp
  have h5: "sorted_wrt (<) (map msg_created_at (conversation_rows example_db 1))"
    by (simp add: rows) (simp add: example_db_def)
  have tok: "history_tokens ?M (map format_message (drop (length (conversation_rows example_db 1)
               - nat 2) (conversation_rows example_db 1))) \<le> max_context_tokens ?M"
    by (simp add: rows) (simp add: example_db_def history_tokens_def count_tokens_def
          ConversationManager_def format_message_def)
  from get_conversation_history_recent [OF h1 h2 h3 h4 h5, of ?M] tok
  have "get_conversation_history ?M example_env example_db 1 ''u1'' (Some 2) =
          Inr (map format_message (drop (length (conversation_rows example_db 1) - nat 2)
                 (conversation_rows example_db 1)))"
    unfolding Let_def by blast
  then show ?thesis by (simp add: rows) (simp add: example_db_def format_message_def)
qed

text \<open>
  C5, as stated, on a conversation of two messages of 10,000 characters each, with the
  default manager (no tokenizer, budget 4000) and limit 20: the estimates are 2500 tokens
  each, and only the newer message is returned, not the most recent \<open>min(2, 20) = 2\<close>.
\<close>

theorem get_conversation_history_counterexample:
  "length (conversation_rows long_history_db 1) = 2 \<and>
   get_conversation_history (ConversationManager None) example_env long_history_db 1 ''u1''
       (Some 20) =
     Inr [\<lparr>role = ''assistant'', content = replicate 10000 (CHR ''b''), tool_calls = None\<rparr>]"
  by (simp add: long_history_db_def example_env_def get_conversation_history_def
        ConversationManager_def py_or_int_def recent_messages_def conversation_rows_def
        format_message_def truncate_history_by_tokens_def count_tokens_def Let_def)

section \<open>Storing a message\<close>

text \<open>
  C6: with the session's queries working, \<open>store_message\<close> fails when the conversation
  does not exist, when it belongs to another user, when the role is neither \<open>user\<close> nor
  \<open>assistant\<close>, and when the content is empty or longer than 10,000 characters; whenever
  it fails the database is left as it was; when it succeeds, the new database has exactly
  one more message, the one returned, and the conversation's \<open>updated_at\<close> set to the time
  of the call, both in the same commit.
\<close>

theorem store_message_validation_atomic:
  assumes "read_ok e"
  shows "(conversations db cid = None \<longrightarrow>
            store_message e db cid uid r c = (Inl (ConversationNotFound cid), db)) \<and>
         (\<forall>conv. conversations db cid = Some conv \<and> conv_user_id conv \<noteq> uid \<longrightarrow>
            store_message e db cid uid r c = (Inl (UnauthorizedAccess cid), db)) \<and>
         (\<forall>conv. conversations db cid = Some conv \<and> conv_user_id conv = uid \<and>
                 r \<noteq> ''user'' \<and> r \<noteq> ''assistant'' \<longrightarrow>
            store_message e db cid uid r c = (Inl (InvalidRole r), db)) \<and>
         (\<forall>conv. conversations db cid = Some conv \<and> conv_user_id conv = uid \<and>
                 (r = ''user'' \<or> r = ''assistant'') \<and> (c = [] \<or> 10000 < length c) \<longrightarrow>
            store_message e db cid uid r c = (Inl InvalidContentLength, db)) \<and>
         (\<forall>conv. conversations db cid = Some conv \<and> conv_user_id conv = uid \<and>
                 (r = ''user'' \<or> r = ''assistant'') \<and> 1 \<le> length c \<and> length c \<le> 10000 \<and>
                 commit_ok e \<longrightarrow>
            (\<exists>m db'. store_message e db cid uid r c = (Inr m, db') \<and>
               m = \<lparr>msg_id = next_message_id db, msg_conversation_id = cid, msg_user_id = uid,
                     msg_role = r, msg_content = c, msg_created_at = now e\<rparr> \<and>
               messages db' = messages db @ [m] \<and>
               conversations db' = (conversations db)(cid \<mapsto> conv\<lparr>conv_updated_at := now e\<rparr>) \<and>
               tasks db' = tasks db)) \<and>
         (\<forall>err db'. store_message e db cid uid r c = (Inl err, db') \<longrightarrow> db' = db)"
proof -
  have 1: "conversations db cid = None \<longrightarrow>
            store_message e db cid uid r c = (Inl (ConversationNotFound cid), db)"
    using assms by (simp add: store_message_def)
  have 2: "\<forall>conv. conversations db cid = Some conv \<and> conv_user_id conv \<noteq> uid \<longrightarrow>
            store_message e db cid uid r c = (Inl (UnauthorizedAccess cid), db)"
    using assms by (simp add: store_message_def)
  have 3: "\<forall>conv. conversations db cid = Some conv \<and> conv_user_id conv = uid \<and>
                 r \<noteq> ''user'' \<and> r \<noteq> ''assistant'' \<longrightarrow>
            store_message e db cid uid r c = (Inl (InvalidRole r), db)"
    using assms by (simp add: store_message_def)
  have 4: "\<forall>conv. conversations db cid = Some conv \<and> conv_user_id conv = uid \<and>
                 (r = ''user'' \<or> r = ''assistant'') \<and> (c = [] \<or> 10000 < length c) \<longrightarrow>
            store_message e db cid uid r c = (Inl InvalidContentLength, db)"
    using assms by (auto simp add: store_message_def)
  have 5: "\<forall>conv. conversations db cid = Some conv \<and> conv_user_id conv = uid \<and>
                 (r = ''user'' \<or> r = ''assistant'') \<and> 1 \<le> length c \<and> length c \<le> 10000 \<and>
                 commit_ok e \<longrightarrow>
            (\<exists>m db'. store_message e db cid uid r c = (Inr m, db') \<and>
               m = \<lparr>msg_id = next_message_id db, msg_conversation_id = cid, msg_user_id = uid,
                     msg_role = r, msg_content = c, msg_created_at = now e\<rparr> \<and>
               messages db' = messages db @ [m] \<and>
               conversations db' = (conversations db)(cid \<mapsto> conv\<lparr>conv_updated_at := now e\<rparr>) \<and>
               tasks db' = tasks db)"
    using assms by (auto simp add: store_message_def Let_def)
  have 6: "\<forall>err db'. store_message e db cid uid r c = (Inl err, db') \<longrightarrow> db' = db"
    by (auto simp add: store_message_def Let_def split: option.splits if_splits)
  show ?thesis using 1 2 3 4 5 6 by blast
qed


theorem store_message_validation_atomic_witness:
  "store_message example_env example_db 7 ''u1'' ''user'' ''x'' =
     (Inl (ConversationNotFound 7), example_db) \<and>
   store_message example_env example_db 1 ''u2'' ''user'' ''x'' =
     (Inl (UnauthorizedAccess 1), example_db) \<and>
   store_message example_env example_db 1 ''u1'' ''system'' ''x'' =
     (Inl (InvalidRole ''system''), example_db) \<and>
   store_message example_env example_db 1 ''u1'' ''user'' [] =
     (Inl InvalidContentLength, example_db) \<and>
   store_message example_env example_db 1 ''u1'' ''user'' (replicate 10001 (CHR ''A'')) =
     (Inl InvalidContentLength, example_db) \<and>
   messages (snd (store_message example_env example_db 1 ''u1'' ''assistant'' ''Fine.'')) =
     messages example_db @
       [\<lparr>msg_id = 4, msg_conversation_id = 1, msg_user_id = ''u1'', msg_role = ''assistant'',
         msg_content = ''Fine.'', msg_created_at = 10\<rparr>] \<and>
   conversations (snd (store_message example_env example_db 1 ''u1'' ''assistant'' ''Fine.'')) 1 =
     Some \<lparr>conv_user_id = ''u1'', conv_created_at = 1, conv_updated_at = 10\<rparr>"
proof -
  have r: "read_ok example_env" and c: "commit_ok example_env" and n: "now example_env = 10"
    by (simp_all add: example_env_def)
  have cv: "conversations example_db 1 =
              Some \<lparr>conv_user_id = ''u1'', conv_created_at = 1, conv_updated_at = 4\<rparr>"
    and cn: "conversations example_db 7 = None" and nm: "next_message_id example_db = 4"
    by (simp_all add: example_db_def)
  have 1: "store_message example_env example_db 7 ''u1'' ''user'' ''x'' =
     (Inl (ConversationNotFound 7), example_db)"
    using store_message_validation_atomic [OF r, of example_db 7 "''u1''" "''user''" "''x''"] cn
    by simp
  have 2: "store_message example_env example_db 1 ''u2'' ''user'' ''x'' =
     (Inl (UnauthorizedAccess 1), example_db)"
    using store_message_validation_atomic [OF r, of example_db 1 "''u2''" "''user''" "''x''"] cv
    by simp
  have 3: "store_message example_env example_db 1 ''u1'' ''system'' ''x'' =
     (Inl (InvalidRole ''system''), example_db)"
    using store_message_validation_atomic [OF r, of example_db 1 "''u1''" "''system''" "''x''"] cv
    by simp
  have 4: "store_message example_env example_db 1 ''u1'' ''user'' [] =
     (Inl InvalidContentLength, example_db)"
    using store_message_validation_atomic [OF r, of example_db 1 "''u1''" "''user''" "[]"] cv
    by simp
  have 5: "store_message example_env example_db 1 ''u1'' ''user'' (replicate 10001 (CHR ''A'')) =
     (Inl InvalidContentLength, example_db)"
    using store_message_validation_atomic [OF r, of example_db 1 "''u1''" "''user''"
        "replicate 10001 (CHR ''A'')"] cv
    by simp
  have 6: "messages (snd (store_message example_env example_db 1 ''u1'' ''assistant'' ''Fine.'')) =
     messages example_db @
       [\<lparr>msg_id = 4, msg_conversation_id = 1, msg_user_id = ''u1'', msg_role = ''assistant'',
         msg_content = ''Fine.'', msg_created_at = 10\<rparr>] \<and>
   conversations (snd (store_message example_env example_db 1 ''u1'' ''assistant'' ''Fine.'')) 1 =
     Some \<lparr>conv_user_id = ''u1'', conv_created_at = 1, conv_updated_at = 10\<rparr>"
    using store_message_validation_atomic [OF r, of example_db 1 "''u1''" "''assistant''"
        "''Fine.''"] cv c n nm
    by auto
  show ?thesis using 1 2 3 4 5 6 by blast
qed

section \<open>Stripping and escaping\<close>

lemma py_strip_id:
  assumes "str \<noteq> []" and "\<not> py_isspace (hd str)" and "\<not> py_isspace (last str)"
  shows "py_strip str = str"
proof -
  have 1: "dropWhile py_isspace str = str" using assms(1,2) by (cases str) auto
  have "rev str \<noteq> []" using assms(1) by simp
  then obtain x xs where r: "rev str = x # xs" by (cases "rev str") auto
  have "hd (rev str) = last str" using assms(1) by (simp add: hd_rev)
  then have "x = last str" using r by simp
  then have "dropWhile py_isspace (x # xs) = x # xs" using assms(3) by simp
  then have 2: "dropWhile py_isspace (rev str) = rev str" by (simp only: r)
  show ?thesis by (simp add: py_strip_def 1 2)
qed












section \<open>Ownership of tasks\<close>

lemma find_task_owner:
  assumes "map_of (tasks db) tid = Some t" and "task_user_id t = u"
  shows "find_task db tid u = Some t"
  using assms by (simp add: find_task_def)

lemma find_task_other_user:
  assumes "map_of (tasks db) tid = Some t" and "task_user_id t = A" and "A \<noteq> B"
  shows "find_task db tid B = None"
  using assms by (simp add: find_task_def)

lemma find_task_missing:
  assumes "map_of (tasks db) tid = None"
  shows "find_task db tid B = None"
  using assms by (simp add: find_task_def)

lemma complete_without_row:
  assumes "find_task db tid B = None"
  shows "complete_task_handler e db B tid =
           (if tid < 1 then Failure ''ValidationError'' (Some ''task_id must be a positive integer'')
            else if \<not> read_ok e
            then Failure ''DatabaseError'' (Some ''Failed to complete task. Please try again.'')
            else not_found, db)"
  using assms by (simp add: complete_task_handler_def validate_task_id_def)

lemma delete_without_row:
  assumes "find_task db tid B = None"
  shows "delete_task_handler e db B tid =
           (if tid < 1 then Failure ''ValidationError'' (Some ''task_id must be a positive integer'')
            else if \<not> read_ok e
            then Failure ''DatabaseError'' (Some ''Failed to delete task. Please try again.'')
            else not_found, db)"
  using assms by (simp add: delete_task_handler_def validate_task_id_def)

lemma update_without_row:
  assumes "find_task db tid B = None"
  shows "update_task_handler e db B tid title description completed =
           (if \<not> fst (validate_update_params tid title description completed)
            then Failure ''ValidationError''
                   (snd (validate_update_params tid title description completed))
            else if \<not> read_ok e
            then Failure ''DatabaseError'' (Some ''Failed to update task. Please try again.'')
            else not_found, db)"
proof (cases "validate_update_params tid title description completed")
  case (Pair ok msg)
  then show ?thesis using assms by (cases ok) (simp_all add: update_task_handler_def Let_def)
qed

text \<open>
  C2: for two distinct users \<open>A\<close> and \<open>B\<close> and a task owned by \<open>A\<close>, calling
  \<open>complete_task\<close>, \<open>delete_task\<close> or \<open>update_task\<close> as \<open>B\<close> with that task's id leaves the
  database exactly as it was and returns what the same call returns on the database
  without that row; for a well-formed call (a positive id, as every primary key is, update
  arguments that pass the validation, and the session's queries working) this is the
  \<open>NotFoundError\<close> failure.
\<close>

theorem ownership_isolation:
  assumes "A \<noteq> B" and "map_of (tasks db) tid = Some t" and "task_user_id t = A"
  shows "let nf = Failure ''NotFoundError'' (Some ''Task not found or does not belong to user'');
             absent = db\<lparr>tasks := AList.delete tid (tasks db)\<rparr>
         in snd (complete_task_handler e db B tid) = db \<and>
            snd (delete_task_handler e db B tid) = db \<and>
            snd (update_task_handler e db B tid title description completed) = db \<and>
            map_of (tasks absent) tid = None \<and>
            fst (complete_task_handler e db B tid) = fst (complete_task_handler e absent B tid) \<and>
            fst (delete_task_handler e db B tid) = fst (delete_task_handler e absent B tid) \<and>
            fst (update_task_handler e db B tid title description completed) =
              fst (update_task_handler e absent B tid title description completed) \<and>
            (1 \<le> tid \<and> read_ok e \<longrightarrow>
               fst (complete_task_handler e db B tid) = nf \<and>
               fst (delete_task_handler e db B tid) = nf \<and>
               (fst (validate_update_params tid title description completed) \<longrightarrow>
                  fst (update_task_handler e db B tid title description completed) = nf))"
proof -
  let ?absent = "db\<lparr>tasks := AList.delete tid (tasks db)\<rparr>"
  have f: "find_task db tid B = None"
    using find_task_other_user [OF assms(2,3,1)] .
  have m: "map_of (tasks ?absent) tid = None" by (simp add: AList.delete_conv')
  have g: "find_task ?absent tid B = None" using find_task_missing [OF m] .
  show ?thesis
    unfolding Let_def not_found_def [symmetric]
    using m
    by (simp add: complete_without_row [OF f] complete_without_row [OF g]
        delete_without_row [OF f] delete_without_row [OF g]
        update_without_row [OF f] update_without_row [OF g])
qed

theorem ownership_isolation_witness:
  "complete_task_handler example_env example_db ''u2'' 1 =
     (Failure ''NotFoundError'' (Some ''Task not found or does not belong to user''), example_db) \<and>
   delete_task_handler example_env example_db ''u2'' 1 =
     (Failure ''NotFoundError'' (Some ''Task not found or does not belong to user''), example_db) \<and>
   update_task_handler example_env example_db ''u2'' 1 (Some ''Hacked title'') None None =
     (Failure ''NotFoundError'' (Some ''Task not found or does not belong to user''), example_db) \<and>
   map_of (tasks example_db) 1 =
     Some \<lparr>task_user_id = ''u1'', task_title = ''Buy milk'', task_description = None,
           task_completed = False, task_created_at = 5, task_updated_at = 5\<rparr>"
proof -
  let ?t = "\<lparr>task_user_id = ''u1'', task_title = ''Buy milk'', task_description = None,
             task_completed = False, task_created_at = 5, task_updated_at = 5\<rparr>"
  have sp: "\<not> py_isspace (CHR ''H'')" "\<not> py_isspace (CHR ''e'')"
    by (simp_all add: py_isspace_def)
  have st: "py_strip ''Hacked title'' = ''Hacked title''"
    by (rule py_strip_id) (simp_all add: sp)
  have h1: "''u1'' \<noteq> ''u2''" by simp
  have h2: "map_of (tasks example_db) 1 = Some ?t" by (simp add: example_db_def)
  have h3: "task_user_id ?t = ''u1''" by simp
  have h4: "(1::int) \<le> 1" by simp
  have h5: "read_ok example_env" by (simp add: example_env_def)
  have h6: "fst (validate_update_params 1 (Some ''Hacked title'') None None)"
    by (simp add: validate_update_params_def st)
  from ownership_isolation [OF h1 h2 h3, of example_env "Some ''Hacked title''" None None]
  have "snd (complete_task_handler example_env example_db ''u2'' 1) = example_db \<and>
        snd (delete_task_handler example_env example_db ''u2'' 1) = example_db \<and>
        snd (update_task_handler example_env example_db ''u2'' 1 (Some ''Hacked title'') None None)
          = example_db \<and>
        fst (complete_task_handler example_env example_db ''u2'' 1) =
          Failure ''NotFoundError'' (Some ''Task not found or does not belong to user'') \<and>
        fst (delete_task_handler example_env example_db ''u2'' 1) =
          Failure ''NotFoundError'' (Some ''Task not found or does not belong to user'') \<and>
        fst (update_task_handler example_env example_db ''u2'' 1 (Some ''Hacked title'') None None) =
          Failure ''NotFoundError'' (Some ''Task not found or does not belong to user'')"
    unfolding Let_def using h4 h5 h6 by blast
  then show ?thesis using h2 by (simp add: prod_eq_iff)
qed

section \<open>Completing a task\<close>

text \<open>
  C7: for a task owned by the caller, completed or not, with storage working,
  \<open>complete_task\<close> succeeds and returns the task with \<open>completed = true\<close> and \<open>updated_at\<close>
  set to the time of the call; a second call on the resulting database succeeds again, with
  \<open>completed = true\<close> and \<open>updated_at\<close> set to the time of the second call.
\<close>

theorem complete_task_idempotent:
  assumes "1 \<le> tid"
    and "map_of (tasks db) tid = Some t" and "task_user_id t = u"
    and "read_ok e1" and "commit_ok e1" and "read_ok e2" and "commit_ok e2"
  shows "let t1 = t\<lparr>task_completed := True, task_updated_at := now e1\<rparr>;
             db1 = db\<lparr>tasks := AList.update tid t1 (tasks db)\<rparr>;
             t2 = t\<lparr>task_completed := True, task_updated_at := now e2\<rparr>;
             db2 = db\<lparr>tasks := AList.update tid t2 (tasks db)\<rparr>
         in complete_task_handler e1 db u tid = (TaskSuccess (task_to_dict tid t1), db1) \<and>
            td_completed (task_to_dict tid t1) \<and> td_updated_at (task_to_dict tid t1) = now e1 \<and>
            complete_task_handler e2 db1 u tid = (TaskSuccess (task_to_dict tid t2), db2) \<and>
            td_completed (task_to_dict tid t2) \<and> td_updated_at (task_to_dict tid t2) = now e2 \<and>
            map_of (tasks db2) tid = Some t2"
proof -
  let ?t1 = "t\<lparr>task_completed := True, task_updated_at := now e1\<rparr>"
  let ?db1 = "db\<lparr>tasks := AList.update tid ?t1 (tasks db)\<rparr>"
  let ?t2 = "t\<lparr>task_completed := True, task_updated_at := now e2\<rparr>"
  let ?db2 = "db\<lparr>tasks := AList.update tid ?t2 (tasks db)\<rparr>"
  have v: "validate_task_id tid = (True, None)" using assms(1) by (simp add: validate_task_id_def)
  have f: "find_task db tid u = Some t" using find_task_owner [OF assms(2,3)] .
  have c1: "complete_task_handler e1 db u tid = (TaskSuccess (task_to_dict tid ?t1), ?db1)"
    using v f assms(4,5) by (simp add: complete_task_handler_def Let_def)
  have m1: "map_of (tasks ?db1) tid = Some ?t1" by (simp add: AList.update_conv')
  have u1: "task_user_id ?t1 = u" using assms(3) by simp
  have f1: "find_task ?db1 tid u = Some ?t1" using find_task_owner [OF m1 u1] .
  have c2: "complete_task_handler e2 ?db1 u tid = (TaskSuccess (task_to_dict tid ?t2), ?db2)"
    using v f1 assms(6,7) by (simp add: complete_task_handler_def Let_def)
  have m2: "map_of (tasks ?db2) tid = Some ?t2" by (simp add: AList.update_conv')
  show ?thesis unfolding Let_def using c1 c2 m2 by (simp add: task_to_dict_def)
qed

theorem complete_task_idempotent_witness:
  "fst (complete_task_handler example_env example_db ''u1'' 1) =
     TaskSuccess \<lparr>td_id = 1, td_user_id = ''u1'', td_title = ''Buy milk'', td_description = None,
                  td_completed = True, td_created_at = 5, td_updated_at = 10\<rparr> \<and>
   fst (complete_task_handler (example_env\<lparr>now := 11\<rparr>)
          (snd (complete_task_handler example_env example_db ''u1'' 1)) ''u1'' 1) =
     TaskSuccess \<lparr>td_id = 1, td_user_id = ''u1'', td_title = ''Buy milk'', td_description = None,
                  td_completed = True, td_created_at = 5, td_updated_at = 11\<rparr>"
proof -
  let ?t = "\<lparr>task_user_id = ''u1'', task_title = ''Buy milk'', task_description = None,
             task_completed = False, task_created_at = 5, task_updated_at = 5\<rparr>"
  let ?e2 = "example_env\<lparr>now := 11\<rparr>"
  have h1: "(1::int) \<le> 1" by simp
  have h2: "map_of (tasks example_db) 1 = Some ?t" by (simp add: example_db_def)
  have h3: "task_user_id ?t = ''u1''" by simp
  have h4: "read_ok example_env" and h5: "commit_ok example_env"
    and h6: "read_ok ?e2" and h7: "commit_ok ?e2"
    and n: "now example_env = 10" "now ?e2 = 11"
    by (simp_all add: example_env_def)
  show ?thesis
    using complete_task_idempotent [OF h1 h2 h3 h4 h5 h6 h7] n unfolding Let_def
    by (simp add: task_to_dict_def)
qed


section \<open>Updating a task\<close>

text \<open>
  C8: a successful \<open>update_task\<close> changes only what was provided: the title, the
  description and the completion flag each keep their old value unless a new one was given
  (a given text is stored as the module's sanitizer returns it); the row stays under its
  id, its owner and \<open>created_at\<close> are unchanged, \<open>updated_at\<close> is the time of the call, and
  every other row, the messages and the conversations are untouched.
\<close>

theorem update_task_frame:
  assumes "update_task_handler e db u tid title description completed = (TaskSuccess d, db')"
    and "map_of (tasks db) tid = Some t"
  shows "\<exists>t'. map_of (tasks db') tid = Some t' \<and> d = task_to_dict tid t' \<and>
           task_title t' =
             (case title of None \<Rightarrow> task_title t | Some v \<Rightarrow> update_task_sanitize_input v) \<and>
           task_description t' =
             (case description of None \<Rightarrow> task_description t
              | Some v \<Rightarrow> Some (update_task_sanitize_input v)) \<and>
           task_completed t' = (case completed of None \<Rightarrow> task_completed t | Some v \<Rightarrow> v) \<and>
           task_user_id t' = task_user_id t \<and>
           task_created_at t' = task_created_at t \<and>
           task_updated_at t' = now e \<and>
           (\<forall>k. k \<noteq> tid \<longrightarrow> map_of (tasks db') k = map_of (tasks db) k) \<and>
           messages db' = messages db \<and> conversations db' = conversations db"
proof -
  let ?t' = "(case completed of None \<Rightarrow> (\<lambda>x. x) | Some v \<Rightarrow> task_completed_update (\<lambda>_. v))
             ((case description of None \<Rightarrow> (\<lambda>x. x)
               | Some v \<Rightarrow> task_description_update (\<lambda>_. Some (update_task_sanitize_input v)))
              ((case title of None \<Rightarrow> (\<lambda>x. x)
                | Some v \<Rightarrow> task_title_update (\<lambda>_. update_task_sanitize_input v)) t))
             \<lparr>task_updated_at := now e\<rparr>"
  have ft: "find_task db tid u = Some t"
    using assms by (auto simp add: update_task_handler_def find_task_def Let_def not_found_def
        split: prod.splits bool.splits if_splits option.splits)
  have res: "d = task_to_dict tid ?t' \<and> db' = db\<lparr>tasks := AList.update tid ?t' (tasks db)\<rparr>"
    using assms(1) ft
    by (auto simp add: update_task_handler_def Let_def not_found_def
        split: prod.splits bool.splits if_splits option.splits)
  have m: "map_of (tasks db') tid = Some ?t'" using res by (simp add: AList.update_conv')
  have o: "\<forall>k. k \<noteq> tid \<longrightarrow> map_of (tasks db') k = map_of (tasks db) k"
    using res by (simp add: AList.update_conv')
  have fields: "task_title ?t' =
             (case title of None \<Rightarrow> task_title t | Some v \<Rightarrow> update_task_sanitize_input v)"
    "task_description ?t' =
             (case description of None \<Rightarrow> task_description t
              | Some v \<Rightarrow> Some (update_task_sanitize_input v))"
    "task_completed ?t' = (case completed of None \<Rightarrow> task_completed t | Some v \<Rightarrow> v)"
    "task_user_id ?t' = task_user_id t" "task_created_at ?t' = task_created_at t"
    "task_updated_at ?t' = now e"
    by (simp_all split: option.splits)
  have rest: "messages db' = messages db \<and> conversations db' = conversations db"
    using res by simp
  show ?thesis using m o fields rest res by blast
qed

theorem update_task_frame_witness:
  "\<exists>d db' t'. update_task_handler example_env example_db ''u1'' 1 None (Some ''Skimmed'') None =
       (TaskSuccess d, db') \<and>
     map_of (tasks db') 1 = Some t' \<and>
     task_title t' = ''Buy milk'' \<and> task_completed t' = False \<and>
     task_description t' = Some ''Skimmed'' \<and>
     task_user_id t' = ''u1'' \<and> task_created_at t' = 5 \<and> task_updated_at t' = 10"
proof -
  let ?t = "\<lparr>task_user_id = ''u1'', task_title = ''Buy milk'', task_description = None,
             task_completed = False, task_created_at = 5, task_updated_at = 5\<rparr>"
  let ?t' = "?t\<lparr>task_description := Some ''Skimmed'', task_updated_at := 10\<rparr>"
  have sp: "\<not> py_isspace (CHR ''S'')" "\<not> py_isspace (CHR ''d'')"
    by (simp_all add: py_isspace_def)
  have st: "py_strip ''Skimmed'' = ''Skimmed''"
    by (rule py_strip_id) (simp_all add: sp)
  have sa: "update_task_sanitize_input ''Skimmed'' = ''Skimmed''"
    by (simp add: update_task_sanitize_input_def py_replace_char_def st)
  have h2: "map_of (tasks example_db) 1 = Some ?t" by (simp add: example_db_def)
  have h1: "update_task_handler example_env example_db ''u1'' 1 None (Some ''Skimmed'') None =
       (TaskSuccess (task_to_dict 1 ?t'), example_db\<lparr>tasks := AList.update 1 ?t' (tasks example_db)\<rparr>)"
    using h2 by (simp add: update_task_handler_def validate_update_params_def sa find_task_def
        example_env_def Let_def)
  from update_task_frame [OF h1 h2] sa show ?thesis
    using h1 by (auto simp add: example_env_def)
qed

section \<open>Creating a task\<close>




section \<open>Sanitization on update\<close>

text \<open>
  C4, evaluated where the code departs from it: \<open>update_task\<close> stores the title
  \<open><script>alert(1)</script>\<close> as it is, while \<open>add_task\<close> stores the same title with
  its HTML special characters replaced by entities. A null byte in a title is a
  \<open>ValidationError\<close> in \<open>add_task\<close>; the sanitizer of \<open>update_task\<close> removes null bytes,
  but \<open>update_task\<close> itself rejects such a title before the sanitizer runs.
\<close>

theorem update_task_title_not_escaped:
  "update_task_handler example_env example_db ''u1'' 1 (Some ''<script>alert(1)</script>'') None None =
     (TaskSuccess \<lparr>td_id = 1, td_user_id = ''u1'', td_title = ''<script>alert(1)</script>'',
                   td_description = None, td_completed = False, td_created_at = 5,
                   td_updated_at = 10\<rparr>,
      example_db\<lparr>tasks :=
        [(1, \<lparr>task_user_id = ''u1'', task_title = ''<script>alert(1)</script>'',
              task_description = None, task_completed = False, task_created_at = 5,
              task_updated_at = 10\<rparr>)]\<rparr>) \<and>
   fst (add_task_handler example_env example_db ''u1'' ''<script>alert(1)</script>'' None) =
     TaskSuccess \<lparr>td_id = 2, td_user_id = ''u1'',
                  td_title = ''&lt;script&gt;alert(1)&lt;/script&gt;'',
                  td_description = None, td_completed = False, td_created_at = 10,
                  td_updated_at = 10\<rparr> \<and>
   add_task_handler example_env example_db ''u1'' [CHR ''a'', CHR 0x00, CHR ''b''] None =
     (Failure ''ValidationError'' (Some ''Title contains invalid characters''), example_db) \<and>
   update_task_sanitize_input [CHR ''a'', CHR 0x00, CHR ''b''] = ''ab'' \<and>
   update_task_handler example_env example_db ''u1'' 1 (Some [CHR ''a'', CHR 0x00, CHR ''b''])
       None None =
     (Failure ''ValidationError'' (Some ''Title contains invalid characters''), example_db)"
proof -
  have sp: "\<not> py_isspace (CHR ''<'')" "\<not> py_isspace (CHR ''>'')" "\<not> py_isspace (CHR ''a'')"
    "\<not> py_isspace (CHR ''b'')"
    by (simp_all add: py_isspace_def)
  have s1: "py_strip ''<script>alert(1)</script>'' = ''<script>alert(1)</script>''"
    by (rule py_strip_id) (simp_all add: sp)
  have s2: "py_strip [CHR ''a'', CHR 0x00, CHR ''b''] = [CHR ''a'', CHR 0x00, CHR ''b'']"
    by (rule py_strip_id) (simp_all add: sp)
  have s3: "py_strip ''ab'' = ''ab''"
    by (rule py_strip_id) (simp_all add: sp)
  have r1: "py_replace_char (CHR 0x00) [] ''<script>alert(1)</script>'' = ''<script>alert(1)</script>''"
    by (simp add: py_replace_char_def)
  have e1: "sanitize_input ''<script>alert(1)</script>'' = ''&lt;script&gt;alert(1)&lt;/script&gt;''"
    by (simp add: sanitize_input_def py_replace_char_def)
  have 1: "update_task_handler example_env example_db ''u1'' 1 (Some ''<script>alert(1)</script>'') None None =
     (TaskSuccess \<lparr>td_id = 1, td_user_id = ''u1'', td_title = ''<script>alert(1)</script>'',
                   td_description = None, td_completed = False, td_created_at = 5,
                   td_updated_at = 10\<rparr>,
      example_db\<lparr>tasks :=
        [(1, \<lparr>task_user_id = ''u1'', task_title = ''<script>alert(1)</script>'',
              task_description = None, task_completed = False, task_created_at = 5,
              task_updated_at = 10\<rparr>)]\<rparr>)"
    by (simp add: update_task_handler_def validate_update_params_def s1 r1
        update_task_sanitize_input_def find_task_def example_db_def example_env_def
        task_to_dict_def Let_def)
  have 2: "fst (add_task_handler example_env example_db ''u1'' ''<script>alert(1)</script>'' None) =
     TaskSuccess \<lparr>td_id = 2, td_user_id = ''u1'',
                  td_title = ''&lt;script&gt;alert(1)&lt;/script&gt;'',
                  td_description = None, td_completed = False, td_created_at = 10,
                  td_updated_at = 10\<rparr>"
    by (simp add: add_task_handler_def add_task_description_def s1 e1 example_db_def
        example_env_def task_to_dict_def Let_def)
  have 3: "add_task_handler example_env example_db ''u1'' [CHR ''a'', CHR 0x00, CHR ''b''] None =
     (Failure ''ValidationError'' (Some ''Title contains invalid characters''), example_db)"
    by (simp add: add_task_handler_def s2 Let_def)
  have 4: "update_task_sanitize_input [CHR ''a'', CHR 0x00, CHR ''b''] = ''ab''"
    by (simp add: update_task_sanitize_input_def py_replace_char_def s3)
  have 5: "update_task_handler example_env example_db ''u1'' 1 (Some [CHR ''a'', CHR 0x00, CHR ''b''])
       None None =
     (Failure ''ValidationError'' (Some ''Title contains invalid characters''), example_db)"
    by (simp add: update_task_handler_def validate_update_params_def s2)
  show ?thesis using 1 2 3 4 5 by blast
qed


section \<open>Engine failures\<close>

lemma try_except_clauses:
  "\<exists>r. try_except (Inl ex) process_message_clauses = Inr r \<and>
       ar_finish_reason r = ''error'' \<and> ar_response r = Some (apology ex) \<and>
       ar_tool_calls r = None \<and>
       map_option err_type (ar_error r) = Some (classify ex)"
  by (cases ex) (simp_all add: process_message_clauses_def error_result_def classify_def apology_def)

lemma try_except_total:
  "\<exists>r. try_except outcome process_message_clauses = Inr r"
proof (cases outcome)
  case (Inl ex)
  then show ?thesis using try_except_clauses [of ex] by blast
next
  case (Inr v)
  then show ?thesis by simp
qed

lemma apology_fixed: "apology ex \<in> set apologies"
  by (cases ex) (simp_all add: apology_def apologies_def)

text \<open>
  C3: \<open>process_message\<close> always returns; and when the completion engine raises, whatever
  the exception, the value returned has \<open>finish_reason = "error"\<close>, carries in \<open>response\<close>
  the apology for that kind of failure, one of six fixed texts that never contain the
  exception's own text, and in \<open>error.type\<close> the classification of the failure.
\<close>

theorem process_message_degraded_success:
  "(\<exists>r. process_message orch eng user_id message_arg history tools = Inr r) \<and>
   (\<forall>ex. eng (build_request orch
              (format_messages orch (case history of None \<Rightarrow> [] | Some h \<Rightarrow> h) message_arg)
              tools) = Inl ex \<longrightarrow>
      (\<exists>r. process_message orch eng user_id message_arg history tools = Inr r \<and>
           ar_finish_reason r = ''error'' \<and>
           ar_response r = Some (apology ex) \<and> apology ex \<in> set apologies \<and>
           map_option err_type (ar_error r) = Some (classify ex)))"
proof -
  let ?msgs = "format_messages orch (case history of None \<Rightarrow> [] | Some h \<Rightarrow> h) message_arg"
  have p: "process_message orch eng user_id message_arg history tools =
           try_except (process_message_body orch eng ?msgs tools) process_message_clauses"
    by (simp add: process_message_def Let_def)
  have total: "\<exists>r. process_message orch eng user_id message_arg history tools = Inr r"
    using try_except_total [of "process_message_body orch eng ?msgs tools"] p by simp
  have fail: "\<exists>r. process_message orch eng user_id message_arg history tools = Inr r \<and>
           ar_finish_reason r = ''error'' \<and>
           ar_response r = Some (apology ex) \<and> apology ex \<in> set apologies \<and>
           map_option err_type (ar_error r) = Some (classify ex)"
    if "eng (build_request orch ?msgs tools) = Inl ex" for ex
  proof -
    have "process_message_body orch eng ?msgs tools = Inl ex"
      using that by (simp add: process_message_body_def)
    then show ?thesis using try_except_clauses [of ex] p apology_fixed [of ex] by auto
  qed
  show ?thesis using total fail by blast
qed

theorem process_message_degraded_success_witness:
  "process_message example_orchestrator (\<lambda>req. Inl (APIError (Some 503) ''overloaded''))
       ''u1'' ''add milk'' None (Some get_available_tools) =
     Inr \<lparr>ar_response = Some ''I'm temporarily unavailable. Please try again shortly.'',
          ar_finish_reason = ''error'', ar_tool_calls = None,
          ar_error = Some \<lparr>err_type = ''ServiceUnavailable'',
                           err_message = ''OpenAI service temporarily unavailable'',
                           err_user_message =
                             ''Service temporarily unavailable. Please try again in a few minutes.''\<rparr>\<rparr>"
proof -
  let ?eng = "\<lambda>req::completion_request.
                (Inl (APIError (Some 503) ''overloaded'') :: engine_exception + choice list)"
  let ?ex = "APIError (Some 503) ''overloaded''"
  have h: "?eng (build_request example_orchestrator
              (format_messages example_orchestrator (case None of None \<Rightarrow> [] | Some h \<Rightarrow> h)
                 ''add milk'') (Some get_available_tools)) = Inl ?ex"
    by simp
  from process_message_degraded_success [of example_orchestrator ?eng "''u1''" "''add milk''"
      None "Some get_available_tools"] h
  obtain r where r: "process_message example_orchestrator ?eng ''u1'' ''add milk'' None
         (Some get_available_tools) = Inr r"
    and f: "ar_finish_reason r = ''error''" and a: "ar_response r = Some (apology ?ex)"
    and t: "map_option err_type (ar_error r) = Some (classify ?ex)"
    by blast
  have "process_message example_orchestrator ?eng ''u1'' ''add milk'' None
         (Some get_available_tools) =
        Inr (error_result ''I'm temporarily unavailable. Please try again shortly.''
                ''ServiceUnavailable'' ''OpenAI service temporarily unavailable''
                ''Service temporarily unavailable. Please try again in a few minutes.'')"
    by (simp add: process_message_def process_message_body_def process_message_clauses_def
        Let_def)
  then show ?thesis using r f a t by (simp add: error_result_def)
qed

section \<open>Persistence of a turn\<close>













lemma strip_hi: "py_strip ''add milk'' = ''add milk''"
  by (simp add: py_strip_def py_isspace_def)








text \<open>
  A store of step 7 also fails on the reply itself: with an engine that answers the empty
  text, \<open>store_message\<close> rejects the reply, the turn returns normally and only the user's
  message has been stored.
\<close>

lemma chat_empty_reply_stores_user_message_only:
  "chat (ConversationManager None) example_orchestrator silent_engine example_decode
      (\<lambda>rs. ''[]'') example_turn_env empty_db ''u1'' ''u1''
      \<lparr>cr_message = ''add milk'', cr_conversation_id = None\<rparr> =
     (Inr \<lparr>resp_conversation_id = 1, resp_response = [], resp_tool_calls = None,
           resp_created_at = 22\<rparr>,
      \<lparr>conversations =
         [1 \<mapsto> \<lparr>conv_user_id = ''u1'', conv_created_at = 10, conv_updated_at = 20\<rparr>],
       messages =
         [\<lparr>msg_id = 1, msg_conversation_id = 1, msg_user_id = ''u1'', msg_role = ''user'',
           msg_content = ''add milk'', msg_created_at = 20\<rparr>],
       tasks = [], next_conversation_id = 2, next_message_id = 2, next_task_id = 1\<rparr>)"
  by (simp add: chat_def strip_hi resolve_conversation_def create_conversation_def
      example_turn_env_def example_env_def empty_db_def get_conversation_history_def
      ConversationManager_def py_or_int_def recent_messages_def conversation_rows_def
      truncate_history_by_tokens_def process_message_def process_message_body_def
      build_request_def get_available_tools_def silent_engine_def format_messages_def
      example_orchestrator_def final_reply_def store_turn_messages_def store_message_def
      Let_def)

end
